theory Spec2Isabelle
  imports Main
begin

section \<open>JavaScript values used by the extension\<close>

text \<open>
  The extension (\<^verbatim>\<open>src/extension.ts\<close>) is a chat participant: every turn of a chat is one
  call of the request handler registered in \<^verbatim>\<open>activate\<close>. The handler mutates one
  \<^verbatim>\<open>ConversationState\<close> object and writes markdown chunks to a response stream. The model
  below passes the state explicitly and returns the chunks in the order they are written.

  The repository has a second, earlier copy of the file, without the MotionWise platform.
  Its conversation store, its capture steps and its code generation are the same text as in
  \<^verbatim>\<open>src/extension.ts\<close>, which is the file modelled here.

  Strings are byte strings: a string of the program is the list of the bytes of its UTF-8
  encoding, so the pictographs of the messages are three or four bytes.
\<close>

text \<open>
  \<^verbatim>\<open>String.prototype.trim\<close> removes the white space and the line terminators of ECMAScript
  from both ends: U+0009 to U+000D, U+0020, U+00A0, U+1680, U+2000 to U+200A, U+2028, U+2029,
  U+202F, U+205F, U+3000 and U+FEFF, here in their UTF-8 encodings.
\<close>

definition whitespace :: "string list" where
  "whitespace =
     [[CHR 0x09], [CHR 0x0A], [CHR 0x0B], [CHR 0x0C], [CHR 0x0D], [CHR 0x20],
      [CHR 0xC2, CHR 0xA0], [CHR 0xE1, CHR 0x9A, CHR 0x80],
      [CHR 0xE2, CHR 0x80, CHR 0x80], [CHR 0xE2, CHR 0x80, CHR 0x81],
      [CHR 0xE2, CHR 0x80, CHR 0x82], [CHR 0xE2, CHR 0x80, CHR 0x83],
      [CHR 0xE2, CHR 0x80, CHR 0x84], [CHR 0xE2, CHR 0x80, CHR 0x85],
      [CHR 0xE2, CHR 0x80, CHR 0x86], [CHR 0xE2, CHR 0x80, CHR 0x87],
      [CHR 0xE2, CHR 0x80, CHR 0x88], [CHR 0xE2, CHR 0x80, CHR 0x89],
      [CHR 0xE2, CHR 0x80, CHR 0x8A], [CHR 0xE2, CHR 0x80, CHR 0xA8],
      [CHR 0xE2, CHR 0x80, CHR 0xA9], [CHR 0xE2, CHR 0x80, CHR 0xAF],
      [CHR 0xE2, CHR 0x81, CHR 0x9F], [CHR 0xE3, CHR 0x80, CHR 0x80],
      [CHR 0xEF, CHR 0xBB, CHR 0xBF]]"

text \<open>The first of the tokens that the string begins with, if there is one.\<close>

definition leading :: "string list \<Rightarrow> string \<Rightarrow> string option" where
  "leading tokens s = find (\<lambda>w. w \<noteq> [] \<and> take (length w) s = w) tokens"

function strip :: "string list \<Rightarrow> string \<Rightarrow> string" where
  "strip tokens s =
     (case leading tokens s of
        None \<Rightarrow> s
      | Some w \<Rightarrow> strip tokens (drop (length w) s))"
  by pat_completeness auto
termination
proof (relation "measure (\<lambda>(tokens, s). length s)")
  show "wf (measure (\<lambda>(tokens, s). length s))"
    by simp
next
  fix tokens :: "string list" and s w :: string
  assume "leading tokens s = Some w"
  then have "w \<noteq> []" and w: "take (length w) s = w"
    by (auto simp add: leading_def find_Some_iff)
  from w have "length (take (length w) s) = length w"
    by simp
  then have "length w \<le> length s"
    by simp
  with \<open>w \<noteq> []\<close> have "length s - length w < length s"
    by (cases w) simp_all
  then show "((tokens, drop (length w) s), (tokens, s)) \<in> measure (\<lambda>(tokens, s). length s)"
    by simp
qed

declare strip.simps [simp del]

definition trimStart :: "string \<Rightarrow> string" where
  "trimStart s = strip whitespace s"

definition trimEnd :: "string \<Rightarrow> string" where
  "trimEnd s = rev (strip (map rev whitespace) (rev s))"

definition trim :: "string \<Rightarrow> string" where
  "trim s = trimEnd (trimStart s)"

text \<open>
  \<^verbatim>\<open>toLowerCase\<close> and \<^verbatim>\<open>toUpperCase\<close> follow the case mappings of Unicode, which belong to
  the JavaScript engine and not to this program. On a string of ASCII characters they map
  the letters \<^verbatim>\<open>A\<close> to \<^verbatim>\<open>Z\<close> and \<^verbatim>\<open>a\<close> to \<^verbatim>\<open>z\<close> and nothing else; on any other string
  the result is the engine's, which the model takes as a parameter. Every theorem below
  holds for every engine.
\<close>

record Engine =
  unicodeToLowerCase :: "string \<Rightarrow> string"
  unicodeToUpperCase :: "string \<Rightarrow> string"

definition ascii_only :: "string \<Rightarrow> bool" where
  "ascii_only s = list_all (\<lambda>c. \<not> digit7 c) s"

definition toLowerCase :: "'a Engine_scheme \<Rightarrow> string \<Rightarrow> string" where
  "toLowerCase engine s =
     (if ascii_only s then
        map (\<lambda>c. case map_of (zip ''ABCDEFGHIJKLMNOPQRSTUVWXYZ'' ''abcdefghijklmnopqrstuvwxyz'') c of
                    Some d \<Rightarrow> d | None \<Rightarrow> c) s
      else unicodeToLowerCase engine s)"

definition toUpperCase :: "'a Engine_scheme \<Rightarrow> string \<Rightarrow> string" where
  "toUpperCase engine s =
     (if ascii_only s then
        map (\<lambda>c. case map_of (zip ''abcdefghijklmnopqrstuvwxyz'' ''ABCDEFGHIJKLMNOPQRSTUVWXYZ'') c of
                    Some d \<Rightarrow> d | None \<Rightarrow> c) s
      else unicodeToUpperCase engine s)"

text \<open>
  \<^verbatim>\<open>MOTIONWISE_PATHS\<close> and \<^verbatim>\<open>configMap\<close> are object literals, and the code reads them with
  \<^verbatim>\<open>obj[key]\<close>. Such a read finds the properties written in the literal and, failing that,
  the members every object inherits from \<^verbatim>\<open>Object.prototype\<close>. A value read that way is
  therefore a string of the literal or an inherited member, named here by its key.
\<close>

datatype js_value = Str string | Inherited string

definition object_prototype_keys :: "string list" where
  "object_prototype_keys =
     [''constructor'', ''__defineGetter__'', ''__defineSetter__'', ''hasOwnProperty'',
      ''__lookupGetter__'', ''__lookupSetter__'', ''isPrototypeOf'', ''propertyIsEnumerable'',
      ''toString'', ''valueOf'', ''__proto__'', ''toLocaleString'']"

text \<open>\<^verbatim>\<open>obj[key]\<close> for an object literal with the given own properties; \<open>None\<close> is \<^verbatim>\<open>undefined\<close>.\<close>

definition get_property :: "(string \<times> string) list \<Rightarrow> string \<Rightarrow> js_value option" where
  "get_property obj key =
     (case map_of obj key of
        Some v \<Rightarrow> Some (Str v)
      | None \<Rightarrow> if key \<in> set object_prototype_keys then Some (Inherited key) else None)"

text \<open>Truthiness: the empty string is falsy, functions and objects are truthy.\<close>

fun truthy :: "js_value \<Rightarrow> bool" where
  "truthy (Str s) = (s \<noteq> [])"
| "truthy (Inherited k) = True"

text \<open>
  The string a value becomes in a template literal or as a property key: the inherited
  members are native functions, except \<^verbatim>\<open>__proto__\<close>, which reads as the prototype object.
\<close>

fun to_string :: "js_value \<Rightarrow> string" where
  "to_string (Str s) = s"
| "to_string (Inherited k) =
     (if k = ''__proto__'' then ''[object Object]''
      else ''function '' @ (if k = ''constructor'' then ''Object'' else k) @ ''() { [native code] }'')"

text \<open>An optional field inside a template literal: an absent one prints as \<^verbatim>\<open>undefined\<close>.\<close>

definition interpolate :: "js_value option \<Rightarrow> string" where
  "interpolate v = (case v of None \<Rightarrow> ''undefined'' | Some x \<Rightarrow> to_string x)"

fun string_of_nat :: "nat \<Rightarrow> string" where
  "string_of_nat n =
     (if n < 10 then [''0123456789'' ! n]
      else string_of_nat (n div 10) @ [''0123456789'' ! (n mod 10)])"

section \<open>Types and interfaces\<close>

datatype Step = Initial | Config | Memory | Dataset | Alternative | Complete

datatype Platform = Posix | Autosar

fun platform_name :: "Platform \<Rightarrow> string" where
  "platform_name Posix = ''posix''"
| "platform_name Autosar = ''autosar''"

datatype MotionWiseConfig = Cp_rdb2 | Cp_rdb3 | Sv62 | S324sdv | Ch63_2 | Generic | Unknown

fun config_name :: "MotionWiseConfig \<Rightarrow> string" where
  "config_name Cp_rdb2 = ''cp-rdb2''"
| "config_name Cp_rdb3 = ''cp-rdb3''"
| "config_name Sv62 = ''sv62''"
| "config_name S324sdv = ''s324sdv''"
| "config_name Ch63_2 = ''ch63_2''"
| "config_name Generic = ''generic''"
| "config_name Unknown = ''unknown''"

text \<open>
  \<^verbatim>\<open>ConversationState\<close>. The fields \<^verbatim>\<open>motionwiseConfig\<close> and \<^verbatim>\<open>integrationPath\<close> hold whatever
  the property reads of the handlers return, so they are values, not strings.
\<close>

record ConversationState =
  step :: Step
  platform :: "Platform option"
  motionwiseConfig :: "js_value option"
  integrationPath :: "js_value option"
  memoryFunction :: "string option"
  datasetFunction :: "string option"
  alternativeFunction :: "string option"

record WorkspaceAnalysis =
  detectedPlatform :: "Platform option"
  detectedMotionWiseConfig :: "MotionWiseConfig option"
  memoryFunctions :: "string list"
  datasetFunctions :: "string list"
  existingIntegrationFiles :: "string list"

section \<open>Knowledge base\<close>

definition DFU_KNOWLEDGE :: string where
  \<open>DFU_KNOWLEDGE =
     (''# DFU (Development Feature Unlocking) Overview\<newline>\<newline>## W''
      @ ''hat is DFU/DMIU?\<newline>\<newline>DFU (Development Feature Unlocking''
      @ '' Service), also known as DMIU (Development Mode Initialization Unit), ''
      @ ''enables different debug levels:\<newline>- **Debug Level 1** - Basic d''
      @ ''ebugging features\<newline>- **Debug Level 2** - Advanced debugging fe''
      @ ''atures  \<newline>- **Safe Level** - Production mode (no debug feature''
      @ ''s)\<newline>\<newline>## Architecture\<newline>\<newline>- **Core (120''
      @ ''0-Core)**: Platform-agnostic logic (common for all configurations)\<newline>''
      @ ''- **Integration Layer**: Platform-specific handwritten code\<newline>\<newline>''
      @ ''## Initialization\<newline>\<newline>Call '' @ [CHR 0x60]
      @ ''DMIU_Initialize(config_struct)'' @ [CHR 0x60]
      @ '' where config has three attributes:\<newline>1. **target_memory**: Poi''
      @ ''nter to struct with two uint32 (MagicFlagA, MagicFlagB)\<newline>2. **''
      @ ''dataset_read_func**: Function to load from persistent storage\<newline>''
      @ ''3. **debug_level_override_func**: Alternative source with OR logic\<newline>''
      @ ''\<newline>## Platform-Specific Initialization\<newline>\<newline>- **A''
      @ ''UTOSAR**: Call from PreOS.c startup sequence\<newline>- **POSIX**: Run''
      @ '' dmiu daemon, main() from integration layer\<newline>\<newline>## Clie''
      @ ''nt API\<newline>\<newline>'' @ [CHR 0x60, CHR 0x60, CHR 0x60]
      @ ''c\<newline>#include '' @ [CHR 0x22] @ ''Debug_Mode.h'' @ [CHR 0x22]
      @ ''\<newline>if (Dmiu_IsDebugLevel1Active()) { /* basic debug */ }\<newline>''
      @ ''if (Dmiu_IsDebugLevel2Active()) { /* advanced debug */ }\<newline>// I''
      @ ''f neither active '' @ [CHR 0xE2, CHR 0x86, CHR 0x92]
      @ '' Safe Level (production)\<newline>'' @ [CHR 0x60, CHR 0x60, CHR 0x60]
      @ ''\<newline>\<newline>## Magic Flag Values\<newline>\<newline>''
      @ [CHR 0x60, CHR 0x60, CHR 0x60]
      @ ''c\<newline>// DEBUG_LEVEL_SAFE: 0x00000000, 0x00000000\<newline>// DEB''
      @ ''UG_LEVEL_1:    0xDEB00001, 0xDEB00001\<newline>// DEBUG_LEVEL_2:    0x''
      @ ''DEB00002, 0xDEB00002\<newline>'' @ [CHR 0x60, CHR 0x60, CHR 0x60] @ ''\<newline>'')\<close>

definition MOTIONWISE_CONTEXT :: string where
  \<open>MOTIONWISE_CONTEXT =
     (''## MotionWise Platform Architecture\<newline>\<newline>### Build Syste''
      @ ''m\<newline>- MotionWise uses **BAZEL** as build system\<newline>- Top ''
      @ ''level build file: '' @ [CHR 0x60] @ ''1500-build/BUILD.bazel'' @ [CHR 0x60]
      @ ''\<newline>- Uses GENIE framework for code generation ('' @ [CHR 0x22] @ ''wishes''
      @ [CHR 0x22]
      @ '')\<newline>- Close to 200 git repositories\<newline>\<newline>### Repo''
      @ ''sitory Structure\<newline>- **1200-Core**: Platform-agnostic services ''
      @ ''(common for all)\<newline>- **1900-sysdef**: Manual configuration inpu''
      @ ''t (CP, s324sdv, SV62)\<newline>- **1700-Configuration**: Generated con''
      @ ''figuration output\<newline>- **1800-EcuIntegration** or **1710-handwri''
      @ ''tten-config**: Handwritten platform-specific code\<newline>\<newline>#''
      @ ''## DMIU Integration Paths by Configuration\<newline>\<newline>| Config''
      @ ''uration | Board | Integration Path |\<newline>|--------------|-------|''
      @ ''------------------|\<newline>| CP | RDB2 | '' @ [CHR 0x60]
      @ ''1800-EcuIntegration/RDB2/1800-ecu-int-rdb2-cp-a/core/development/dmiu''
      @ [CHR 0x60] @ '' |\<newline>| CP | RDB3 | '' @ [CHR 0x60]
      @ ''1800-EcuIntegration/RDB3/1800-ecu-int-rdb3-cp-a/core/development/dmiu''
      @ [CHR 0x60] @ '' |\<newline>| SV62 (HCP2MEJ) | RDB2 | '' @ [CHR 0x60]
      @ ''1700-Configuration/RDB2/1710-handwritten-config-sv62/core/development/''
      @ ''dmiu'' @ [CHR 0x60] @ '' |\<newline>| s324sdv (SDV) | RDB2 | '' @ [CHR 0x60]
      @ ''1700-Configuration/RDB2/1710-handwritten-config-s324sdv/core/developme''
      @ ''nt/dmiu'' @ [CHR 0x60] @ '' |\<newline>| CH63_2 | - | '' @ [CHR 0x60]
      @ ''configs/projects/CH63_2/deployments/1710-handwritten-config-ch63_2/cor''
      @ ''e/development/dmiu'' @ [CHR 0x60]
      @ '' |\<newline>\<newline>**Note:** s324sdv has two ECU configurations (co''
      @ ''rner case).\<newline>'')\<close>

definition MOTIONWISE_PATHS :: "(string \<times> string) list" where
  "MOTIONWISE_PATHS =
     [(''cp-rdb2'', ''1800-EcuIntegration/RDB2/1800-ecu-int-rdb2-cp-a/core/development/dmiu''),
      (''cp-rdb3'', ''1800-EcuIntegration/RDB3/1800-ecu-int-rdb3-cp-a/core/development/dmiu''),
      (''sv62'', ''1700-Configuration/RDB2/1710-handwritten-config-sv62/core/development/dmiu''),
      (''s324sdv'', ''1700-Configuration/RDB2/1710-handwritten-config-s324sdv/core/development/dmiu''),
      (''ch63_2'',
       ''configs/projects/CH63_2/deployments/1710-handwritten-config-ch63_2/core/development/dmiu''),
      (''generic'', ''1800-EcuIntegration/[PLATFORM]/core/development/dmiu''),
      (''unknown'', ''1800-EcuIntegration/[PLATFORM]/core/development/dmiu'')]"

section \<open>The host\<close>

text \<open>
  What the handlers obtain from outside the program during one turn. A rejected promise or
  a thrown exception is a \<open>js_error\<close>; it carries the text that the \<^verbatim>\<open>catch\<close> clause of
  the request handler prints for it.

  \<^item> The case mappings of the engine, as above.
  \<^item> \<open>analyzeWorkspace\<close> is the result of the workspace scan of this turn (the function
    \<^verbatim>\<open>analyzeWorkspace\<close> only reads the workspace; it fails when a file search or a file
    read fails).
  \<^item> \<open>selectChatModels\<close> is the result of \<^verbatim>\<open>vscode.lm.selectChatModels\<close>. A model is its
    \<^verbatim>\<open>sendRequest\<close>: from the texts of the messages to the response, which is either a
    rejection or the chunks of \<^verbatim>\<open>response.text\<close>, possibly ended by an exception.
  The cancellation token of the turn is handed to \<^verbatim>\<open>sendRequest\<close> and read nowhere else,
  so a cancellation can only show as the behaviour of that request: a rejection, or a text
  stream that ends early, with or without an exception.
\<close>

datatype js_error = Thrown string

datatype lm_response = Rejected js_error | Text "string list" "js_error option"

type_synonym LanguageModelChat = "string list \<Rightarrow> lm_response"

record Host = Engine +
  analyzeWorkspace :: "js_error + WorkspaceAnalysis"
  selectChatModels :: "js_error + LanguageModelChat list"

record ChatRequest =
  command :: "string option"
  prompt :: string

text \<open>
  The effects of a handler besides its writes to the state: the markdown chunks written to
  the stream, the requests sent to a language model, and the exception it ends with, if any.
\<close>

record Reply =
  stream :: "string list"
  requests :: "string list list"
  thrown :: "js_error option"

record Outcome = Reply +
  state :: ConversationState

section \<open>Code generation\<close>

definition buildCodeGenerationPrompt :: "'a Engine_scheme \<Rightarrow> ConversationState \<Rightarrow> string" where
  \<open>buildCodeGenerationPrompt engine s =
     ''Generate complete DMIU integration for ''
     @ (case platform s of None \<Rightarrow> ''undefined'' | Some p \<Rightarrow> toUpperCase engine (platform_name p))
     @ '' platform.\<newline>\<newline>Configuration:\<newline>- Platform: ''
     @ interpolate (map_option (Str \<circ> platform_name) (platform s))
     @ ''\<newline>- Memory: '' @ interpolate (map_option Str (memoryFunction s))
     @ ''\<newline>- Dataset: '' @ interpolate (map_option Str (datasetFunction s))
     @ ''\<newline>- Alternative: '' @ interpolate (map_option Str (alternativeFunction s))
     @ (''\<newline>\<newline>Generate these files with TTTech Auto copyright (2''
      @ ''025), MISRA justifications, Doxygen docs:\<newline>\<newline>1. **dmiu''
      @ ''_integration.h** - Header with function declarations\<newline>2. **dmi''
      @ ''u_integration.c** - Implementation with adapters for user'' @ [CHR 0x27]
      @ ''s functions\<newline>'')
     @ (if platform s = Some Posix then ''3. **main.c** - POSIX daemon entry point'' else [])
     @ (''\<newline>\<newline>Create adapter functions if user'' @ [CHR 0x27]
      @ ''s functions don'' @ [CHR 0x27]
      @ ''t match required signatures:\<newline>- Memory adapter: Cast/wrap to r''
      @ ''eturn Dt_RECORD_DebugUnlockingStruct_DMIU*\<newline>- Dataset adapter:''
      @ '' Convert return type to magic flags (0xDEB00001/0xDEB00002/0x00000000)''
      @ ''\<newline>- Alternative adapter: Convert to e_Dmiu_Debug_Level with OR''
      @ '' logic\<newline>\<newline>Show complete, compilable code for each file'' @ ''.'')\<close>

definition generateIntegrationCode :: "ConversationState \<Rightarrow> Host \<Rightarrow> Reply" where
  \<open>generateIntegrationCode s host =
     (let prompt = buildCodeGenerationPrompt host s in
      case selectChatModels host of
        Inl e \<Rightarrow> \<lparr>stream = [], requests = [], thrown = Some e\<rparr>
      | Inr models \<Rightarrow>
          (case models of
             [] \<Rightarrow>
               \<lparr>stream =
                  [([CHR 0xE2, CHR 0x9A, CHR 0xA0, CHR 0xEF, CHR 0xB8, CHR 0x8F]
      @ '' Language Model not available\<newline>\<newline>''),
                   ''Config: Platform='' @ interpolate (map_option (Str \<circ> platform_name) (platform s))
                   @ '', Memory='' @ interpolate (map_option Str (memoryFunction s))
                   @ '', Dataset='' @ interpolate (map_option Str (datasetFunction s))
                   @ '', Alt='' @ interpolate (map_option Str (alternativeFunction s)) @ ''\<newline>''],
                requests = [], thrown = None\<rparr>
           | model # _ \<Rightarrow>
               (let messages = [DFU_KNOWLEDGE, prompt] in
                case model messages of
                  Rejected e \<Rightarrow> \<lparr>stream = [], requests = [messages], thrown = Some e\<rparr>
                | Text chunks e \<Rightarrow> \<lparr>stream = chunks, requests = [messages], thrown = e\<rparr>)))\<close>

section \<open>Command handlers\<close>

text \<open>
  The part of \<^verbatim>\<open>handleIntegrateCommand\<close> after the platform and the path are settled: the
  files to be created and the first question.
\<close>

definition first_question :: "WorkspaceAnalysis \<Rightarrow> ConversationState \<Rightarrow> string list" where
  \<open>first_question analysis s =
     [''### Files to be created:\<newline>\<newline>'',
      ([CHR 0x60, CHR 0x60, CHR 0x60] @ ''\<newline>''),
      interpolate (integrationPath s) @ ''/\<newline>'',
      ([CHR 0xE2, CHR 0x94, CHR 0x9C, CHR 0xE2, CHR 0x94, CHR 0x80, CHR 0xE2, CHR 0x94, CHR 0x80]
      @ '' api/dmiu_integration.h\<newline>''),
      ([CHR 0xE2, CHR 0x94, CHR 0x94, CHR 0xE2, CHR 0x94, CHR 0x80, CHR 0xE2, CHR 0x94, CHR 0x80]
      @ '' src/\<newline>''),
      (''    ''
      @ [CHR 0xE2, CHR 0x94, CHR 0x9C, CHR 0xE2, CHR 0x94, CHR 0x80, CHR 0xE2, CHR 0x94, CHR 0x80]
      @ '' dmiu_integration.c\<newline>'')]
     @ (if platform s = Some Posix then [(''    ''
      @ [CHR 0xE2, CHR 0x94, CHR 0x94, CHR 0xE2, CHR 0x94, CHR 0x80, CHR 0xE2, CHR 0x94, CHR 0x80]
      @ '' main.c\<newline>'')] else [])
     @ [([CHR 0x60, CHR 0x60, CHR 0x60] @ ''\<newline>\<newline>''),
        ''### Step 1/3: Memory Allocation\<newline>\<newline>'',
        ''Which function should I use for memory allocation?\<newline>\<newline>'']
     @ (if length (memoryFunctions analysis) > 0 then
          [''**Found in workspace:**\<newline>'']
          @ map (\<lambda>(i, fn). string_of_nat (i + 1) @ (''. '' @ [CHR 0x60]) @ fn @ ([CHR 0x60] @ ''\<newline>''))
              (enumerate 0 (memoryFunctions analysis))
          @ [''\<newline>'']
        else [])
     @ [''**Options:**\<newline>'']
     @ (if platform s = Some Posix then [(''- '' @ [CHR 0x60] @ ''ShmM_MapOwner'' @ [CHR 0x60]
      @ '' - Shared memory (recommended)\<newline>'')] else [])
     @ [(''- '' @ [CHR 0x60] @ ''static'' @ [CHR 0x60]
      @ '' - Static global variable\<newline>''),
        ''- Or provide your custom function name\<newline>\<newline>'',
        ([CHR 0xF0, CHR 0x9F, CHR 0x92, CHR 0xAC]
      @ '' **Just reply with your choice**\<newline>'')]\<close>

text \<open>The question of \<^verbatim>\<open>handleIntegrateCommand\<close> for the configuration, when none was detected.\<close>

definition which_configuration :: "string list" where
  \<open>which_configuration =
     [''### Which MotionWise configuration are you using?\<newline>\<newline>'',
      ''Available configurations:\<newline>'',
      (''1. '' @ [CHR 0x60] @ ''cp-rdb2'' @ [CHR 0x60] @ '' - CP on RDB2 board\<newline>''),
      (''2. '' @ [CHR 0x60] @ ''cp-rdb3'' @ [CHR 0x60] @ '' - CP on RDB3 board\<newline>''),
      (''3. '' @ [CHR 0x60] @ ''sv62'' @ [CHR 0x60] @ '' - SV62 (HCP2MEJ) on RDB2\<newline>''),
      (''4. '' @ [CHR 0x60] @ ''s324sdv'' @ [CHR 0x60]
      @ '' - s324sdv (SDV) on RDB2\<newline>''),
      (''5. '' @ [CHR 0x60] @ ''ch63_2'' @ [CHR 0x60] @ '' - CH63_2 configuration\<newline>''),
      (''6. '' @ [CHR 0x60] @ ''generic'' @ [CHR 0x60]
      @ '' - Generic/custom configuration\<newline>\<newline>''),
      ([CHR 0xF0, CHR 0x9F, CHR 0x92, CHR 0xAC]
      @ '' **Reply with configuration name** (e.g., '' @ [CHR 0x22] @ ''cp-rdb2''
      @ [CHR 0x22] @ '')\<newline>'')]\<close>

definition handleIntegrateCommand :: "ChatRequest \<Rightarrow> Host \<Rightarrow> ConversationState \<Rightarrow> Outcome" where
  \<open>handleIntegrateCommand request host s =
     (let input = toLowerCase host (trim (prompt request)) in
      if input \<noteq> ''posix'' \<and> input \<noteq> ''autosar'' \<and> input \<noteq> ''motionwise'' then
        \<lparr>stream =
           [''## DFU Integration\<newline>\<newline>'',
            ''Please specify platform:\<newline>\<newline>'',
            (''- '' @ [CHR 0x60] @ ''posix'' @ [CHR 0x60] @ '' - Generic POSIX platform\<newline>''),
            (''- '' @ [CHR 0x60] @ ''autosar'' @ [CHR 0x60]
      @ '' - Generic AUTOSAR platform\<newline>''),
            (''- '' @ [CHR 0x60] @ ''motionwise'' @ [CHR 0x60]
      @ '' - MotionWise platform (auto-detects configuration)\<newline>\<newline>''),
            (''**Example:** '' @ [CHR 0x60] @ ''@dfu /integrate motionwise'' @ [CHR 0x60]
      @ ''\<newline>'')],
         requests = [], thrown = None, state = s\<rparr>
      else
        let s1 = s\<lparr>platform :=
                     Some (if input = ''posix'' \<or> input = ''autosar''
                           then (if input = ''posix'' then Posix else Autosar)
                           else Posix)\<rparr>
        in
        case analyzeWorkspace host of
          Inl e \<Rightarrow> \<lparr>stream = [], requests = [], thrown = Some e, state = s1\<rparr>
        | Inr analysis \<Rightarrow>
            (let starting = [''## Starting '' @ toUpperCase host input @ '' Integration\<newline>\<newline>''] in
             if input = ''motionwise'' then
               (case detectedMotionWiseConfig analysis of
                  Some detected \<Rightarrow>
                    if detected \<noteq> Unknown then
                      (let s2 = s1\<lparr>motionwiseConfig := Some (Str (config_name detected)),
                                    integrationPath :=
                                      get_property MOTIONWISE_PATHS (config_name detected),
                                    step := Memory\<rparr>
                       in \<lparr>stream =
                             starting
                             @ [MOTIONWISE_CONTEXT @ ''\<newline>\<newline>'',
                                ([CHR 0xE2, CHR 0x9C, CHR 0x85] @ '' Detected configuration: **'') @ toUpperCase host (config_name detected)
                                @ ''**\<newline>'',
                                ([CHR 0xF0, CHR 0x9F, CHR 0x93, CHR 0x81] @ '' Integration path: '' @ [CHR 0x60]) @ interpolate (integrationPath s2) @ ([CHR 0x60] @ ''\<newline>\<newline>'')]
                             @ first_question analysis s2,
                           requests = [], thrown = None, state = s2\<rparr>)
                    else
                      \<lparr>stream =
                         starting @ [MOTIONWISE_CONTEXT @ ''\<newline>\<newline>''] @ which_configuration,
                       requests = [], thrown = None, state = s1\<lparr>step := Config\<rparr>\<rparr>
                | None \<Rightarrow>
                    \<lparr>stream =
                       starting @ [MOTIONWISE_CONTEXT @ ''\<newline>\<newline>''] @ which_configuration,
                     requests = [], thrown = None, state = s1\<lparr>step := Config\<rparr>\<rparr>)
             else
               (let s2 = s1\<lparr>step := Memory,
                             integrationPath :=
                               Some (Str ''1800-EcuIntegration/[PLATFORM]/core/development/dmiu'')\<rparr>
                in \<lparr>stream = starting @ first_question analysis s2,
                    requests = [], thrown = None, state = s2\<rparr>)))\<close>

definition handleValidateCommand :: "Host \<Rightarrow> Reply" where
  \<open>handleValidateCommand host =
     (case analyzeWorkspace host of
        Inl e \<Rightarrow> \<lparr>stream = [], requests = [], thrown = Some e\<rparr>
      | Inr analysis \<Rightarrow>
          if length (existingIntegrationFiles analysis) = 0 then
            \<lparr>stream =
               [''## DMIU Integration Validation\<newline>\<newline>'',
                ([CHR 0xE2, CHR 0x9D, CHR 0x8C] @ '' No integration files found\<newline>\<newline>''),
                (''Run '' @ [CHR 0x60] @ ''@dfu /integrate posix'' @ [CHR 0x60] @ '' or '' @ [CHR 0x60]
      @ ''@dfu /integrate autosar'' @ [CHR 0x60] @ '' to start.\<newline>'')],
             requests = [], thrown = None\<rparr>
          else
            \<lparr>stream =
               [''## DMIU Integration Validation\<newline>\<newline>'',
                ''### Found Integration Files:\<newline>\<newline>'']
               @ map (\<lambda>file. ([CHR 0xE2, CHR 0x9C, CHR 0x85] @ '' '') @ file @ ''\<newline>'') (existingIntegrationFiles analysis),
             requests = [], thrown = None\<rparr>)\<close>

definition handleAdapterCommand :: "ChatRequest \<Rightarrow> Reply" where
  \<open>handleAdapterCommand request =
     (let functionName = trim (prompt request) in
      if functionName = [] then
        \<lparr>stream =
           [''Please provide a function name.\<newline>\<newline>'',
            (''**Example:** '' @ [CHR 0x60] @ ''@dfu /adapter MyDatasetFunction'' @ [CHR 0x60]
      @ ''\<newline>'')],
         requests = [], thrown = None\<rparr>
      else
        \<lparr>stream =
           [(''## Generating Adapter for '' @ [CHR 0x60]) @ functionName @ ([CHR 0x60] @ ''\<newline>\<newline>''),
            ''What does this function return?\<newline>\<newline>'',
            (''- String (e.g., '' @ [CHR 0x22] @ ''debug_level_2'' @ [CHR 0x22] @ '')\<newline>''),
            ''- Integer (0/1/2)\<newline>'',
            ''- Boolean\<newline>'',
            ''- Compatible type\<newline>''],
         requests = [], thrown = None\<rparr>)\<close>

section \<open>Conversation flow\<close>

definition configMap :: "(string \<times> string) list" where
  "configMap =
     [(''1'', ''cp-rdb2''), (''2'', ''cp-rdb3''), (''3'', ''sv62''), (''4'', ''s324sdv''),
      (''5'', ''ch63_2''), (''6'', ''generic'')]"

text \<open>\<^verbatim>\<open>configMap[userMessage] || userMessage.toLowerCase()\<close>\<close>

definition selectedConfig :: "'a Engine_scheme \<Rightarrow> string \<Rightarrow> js_value" where
  "selectedConfig engine userMessage =
     (case get_property configMap userMessage of
        Some v \<Rightarrow> if truthy v then v else Str (toLowerCase engine userMessage)
      | None \<Rightarrow> Str (toLowerCase engine userMessage))"

text \<open>\<^verbatim>\<open>selectedConfig && MOTIONWISE_PATHS[selectedConfig]\<close>, as the condition of the \<^verbatim>\<open>if\<close>.\<close>

definition config_accepted :: "'a Engine_scheme \<Rightarrow> string \<Rightarrow> bool" where
  "config_accepted engine userMessage =
     (truthy (selectedConfig engine userMessage) \<and>
      (case get_property MOTIONWISE_PATHS (to_string (selectedConfig engine userMessage)) of
         Some p \<Rightarrow> truthy p
       | None \<Rightarrow> False))"

definition handleConversationFlow :: "ChatRequest \<Rightarrow> Host \<Rightarrow> ConversationState \<Rightarrow> Outcome" where
  \<open>handleConversationFlow request host s =
     (let userMessage = trim (prompt request) in
      if step s = Initial then
        \<lparr>stream =
           [DFU_KNOWLEDGE,
            (''\<newline>\<newline>'' @ [CHR 0xF0, CHR 0x9F, CHR 0x92, CHR 0xA1]
      @ '' **Get started:** '' @ [CHR 0x60] @ ''@dfu /integrate posix'' @ [CHR 0x60]
      @ '' or '' @ [CHR 0x60] @ ''@dfu /integrate autosar'' @ [CHR 0x60] @ '' or ''
      @ [CHR 0x60] @ ''@dfu /integrate motionwise'' @ [CHR 0x60] @ ''\<newline>'')],
         requests = [], thrown = None, state = s\<rparr>
      else if step s = Config then
        (if config_accepted host userMessage then
           (let s1 = s\<lparr>motionwiseConfig := Some (selectedConfig host userMessage),
                         integrationPath :=
                           get_property MOTIONWISE_PATHS (to_string (selectedConfig host userMessage)),
                         step := Memory\<rparr>
            in \<lparr>stream =
                  [([CHR 0xE2, CHR 0x9C, CHR 0x85] @ '' Configuration: **'') @ to_string (selectedConfig host userMessage) @ ''**\<newline>\<newline>'',
                   ([CHR 0xF0, CHR 0x9F, CHR 0x93, CHR 0x81] @ '' Integration path: '' @ [CHR 0x60]) @ interpolate (integrationPath s1) @ ([CHR 0x60] @ ''\<newline>\<newline>''),
                   ''### Step 1/3: Memory Management\<newline>\<newline>'',
                   ''Which function provides memory pointer?\<newline>\<newline>'',
                   ''Requirements:\<newline>'',
                   ''- Returns void* to memory region\<newline>'',
                   ''- Persistent memory for DMIU config\<newline>'',
                   ''- Compatible type\<newline>\<newline>'',
                   ([CHR 0xF0, CHR 0x9F, CHR 0x92, CHR 0xAC] @ '' **Reply with function name**\<newline>'')],
                requests = [], thrown = None, state = s1\<rparr>)
         else
           \<lparr>stream = [([CHR 0xE2, CHR 0x9D, CHR 0x8C]
      @ '' Invalid configuration. Please choose 1-6 or type the config name.\<newline>'')],
            requests = [], thrown = None, state = s\<rparr>)
      else if step s = Memory then
        \<lparr>stream =
           [([CHR 0xE2, CHR 0x9C, CHR 0x85] @ '' Memory: '' @ [CHR 0x60]) @ userMessage @ ([CHR 0x60] @ ''\<newline>\<newline>''),
            ''### Step 2/3: Dataset Loading\<newline>\<newline>'',
            ''Which function loads debug configuration?\<newline>\<newline>'',
            ''Provide function name or describe what it returns:\<newline>'',
            (''- String ('' @ [CHR 0x22] @ ''debug_level_1'' @ [CHR 0x22] @ '', '' @ [CHR 0x22]
      @ ''debug_level_2'' @ [CHR 0x22] @ '', '' @ [CHR 0x22] @ ''safe'' @ [CHR 0x22]
      @ '')\<newline>''),
            ''- Integer (0=safe, 1=level1, 2=level2)\<newline>'',
            ''- Compatible signature\<newline>\<newline>'',
            ([CHR 0xF0, CHR 0x9F, CHR 0x92, CHR 0xAC]
      @ '' **Reply with function name or description**\<newline>'')],
         requests = [], thrown = None,
         state = s\<lparr>memoryFunction := Some userMessage, step := Dataset\<rparr>\<rparr>
      else if step s = Dataset then
        \<lparr>stream =
           [([CHR 0xE2, CHR 0x9C, CHR 0x85] @ '' Dataset: '' @ [CHR 0x60]) @ userMessage @ ([CHR 0x60] @ ''\<newline>\<newline>''),
            ''### Step 3/3: Alternative Load\<newline>\<newline>'',
            ''Which function provides alternative debug level?\<newline>\<newline>'',
            ''Options:\<newline>'',
            ''- Function name (if you have one)\<newline>'',
            (''- '' @ [CHR 0x60] @ ''none'' @ [CHR 0x60]
      @ '' (stub returning SAFE)\<newline>\<newline>''),
            ([CHR 0xF0, CHR 0x9F, CHR 0x92, CHR 0xAC] @ '' **Reply with function name or ''
      @ [CHR 0x22] @ ''none'' @ [CHR 0x22] @ ''**\<newline>'')],
         requests = [], thrown = None,
         state = s\<lparr>datasetFunction := Some userMessage, step := Alternative\<rparr>\<rparr>
      else if step s = Alternative then
        (let s1 = s\<lparr>alternativeFunction := Some userMessage, step := Complete\<rparr>;
             announced =
               [([CHR 0xE2, CHR 0x9C, CHR 0x85] @ '' Alternative: '' @ [CHR 0x60]) @ userMessage @ ([CHR 0x60] @ ''\<newline>\<newline>''),
                ''## Generating Integration Files...\<newline>\<newline>''];
             generated = generateIntegrationCode s1 host
         in case thrown generated of
              Some e \<Rightarrow>
                \<lparr>stream = announced @ stream generated, requests = requests generated,
                 thrown = Some e, state = s1\<rparr>
            | None \<Rightarrow>
                \<lparr>stream =
                   announced @ stream generated
                   @ [(''\<newline>\<newline>'' @ [CHR 0xE2, CHR 0x9C, CHR 0x85]
      @ '' **Integration complete!**\<newline>\<newline>''),
                      ''Next steps:\<newline>'',
                      ''1. Review generated files\<newline>'',
                      ''2. Compile and test\<newline>'',
                      (''3. Use '' @ [CHR 0x60] @ ''@dfu /validate'' @ [CHR 0x60] @ '' to check\<newline>'')],
                 requests = requests generated, thrown = None,
                 state = s1\<lparr>step := Initial\<rparr>\<rparr>)
      else
        \<lparr>stream = [], requests = [], thrown = None, state = s\<rparr>)\<close>

section \<open>Activation: the request handler and the conversation store\<close>

text \<open>
  The \<^verbatim>\<open>try\<close> block of the request handler with its \<^verbatim>\<open>catch\<close> clause, for the state object
  the store has resolved: dispatch on the slash command, and turn an exception of the
  handler into one more chunk. What the handler wrote to the state and to the stream before
  the exception stays.
\<close>

definition handleRequest :: "ChatRequest \<Rightarrow> Host \<Rightarrow> ConversationState \<Rightarrow> Outcome" where
  \<open>handleRequest request host s =
     (let attempt =
        (if command request = Some ''integrate'' then handleIntegrateCommand request host s
         else if command request = Some ''validate'' then
           (let r = handleValidateCommand host
            in \<lparr>stream = stream r, requests = requests r, thrown = thrown r, state = s\<rparr>)
         else if command request = Some ''adapter'' then
           (let r = handleAdapterCommand request
            in \<lparr>stream = stream r, requests = requests r, thrown = thrown r, state = s\<rparr>)
         else handleConversationFlow request host s)
      in case thrown attempt of
           None \<Rightarrow> attempt
         | Some (Thrown message) \<Rightarrow>
             attempt\<lparr>stream := stream attempt @ [(''\<newline>\<newline>'' @ [CHR 0xE2, CHR 0x9D, CHR 0x8C] @ '' Error: '') @ message @ ''\<newline>''],
                     thrown := None\<rparr>)\<close>

text \<open>
  \<^verbatim>\<open>conversationStates\<close> is a \<^verbatim>\<open>Map\<close> from numbers to state objects. It holds references:
  the same object can be registered under several keys, and a write through one of them
  shows under all. So the model has the objects in a heap, addressed by references, and
  the map holds references. \<open>allocated\<close> counts the objects created so far; the next one
  gets that number as its reference.
\<close>

type_synonym ref = nat

record Runtime =
  objects :: "ref \<Rightarrow> ConversationState"
  allocated :: nat
  conversationStates :: "int \<rightharpoonup> ref"

definition fresh_state :: ConversationState where
  "fresh_state =
     \<lparr>step = Initial, platform = None, motionwiseConfig = None, integrationPath = None,
      memoryFunction = None, datasetFunction = None, alternativeFunction = None\<rparr>"

text \<open>The store when \<^verbatim>\<open>activate\<close> has run: an empty map and no state object.\<close>

definition activate :: Runtime where
  "activate = \<lparr>objects = (\<lambda>_. fresh_state), allocated = 0, conversationStates = Map.empty\<rparr>"

text \<open>
  The first lines of the request handler: look the state up under the length of the
  history, then under the length less one, create it if neither is there, and register it
  under the length plus one. The result is the reference of the state and the new store.
\<close>

definition getOrCreateState :: "nat \<Rightarrow> Runtime \<Rightarrow> ref \<times> Runtime" where
  "getOrCreateState historyLength rt =
     (let sessionKey = int historyLength;
          (r, rt1) =
            (case conversationStates rt sessionKey of
               Some r \<Rightarrow> (r, rt)
             | None \<Rightarrow>
                 (case conversationStates rt (sessionKey - 1) of
                    Some r \<Rightarrow> (r, rt)
                  | None \<Rightarrow>
                      (allocated rt,
                       rt\<lparr>objects := (objects rt)(allocated rt := fresh_state),
                          allocated := allocated rt + 1\<rparr>)))
      in (r, rt1\<lparr>conversationStates := (conversationStates rt1)(sessionKey + 1 \<mapsto> r)\<rparr>))"

text \<open>One turn: the whole request handler. It returns the new store and what was streamed.\<close>

definition chatParticipant :: "nat \<Rightarrow> ChatRequest \<Rightarrow> Host \<Rightarrow> Runtime \<Rightarrow> Runtime \<times> string list" where
  "chatParticipant historyLength request host rt =
     (let (r, rt1) = getOrCreateState historyLength rt;
          outcome = handleRequest request host (objects rt1 r)
      in (rt1\<lparr>objects := (objects rt1)(r := state outcome)\<rparr>, stream outcome))"

section \<open>Conversations\<close>

text \<open>A conversation on one state object: the turns in order, each with what the host answers.\<close>

fun run :: "(ChatRequest \<times> Host) list \<Rightarrow> ConversationState \<Rightarrow> ConversationState" where
  "run [] s = s"
| "run ((request, host) # turns) s = run turns (state (handleRequest request host s))"

text \<open>What the conversation shows: per turn, the chunks streamed and the requests sent.\<close>

fun transcript ::
  "(ChatRequest \<times> Host) list \<Rightarrow> ConversationState \<Rightarrow> (string list \<times> string list list) list" where
  "transcript [] s = []"
| "transcript ((request, host) # turns) s =
     (stream (handleRequest request host s), requests (handleRequest request host s))
     # transcript turns (state (handleRequest request host s))"

section \<open>Reading the handlers\<close>

text \<open>
  A turn without one of the three slash commands continues the conversation flow. The
  token of an \<^verbatim>\<open>/integrate\<close> turn is what \<^verbatim>\<open>handleIntegrateCommand\<close> calls \<^verbatim>\<open>input\<close>.
\<close>

definition free_text :: "ChatRequest \<Rightarrow> bool" where
  "free_text request =
     (command request \<noteq> Some ''integrate'' \<and> command request \<noteq> Some ''validate'' \<and>
      command request \<noteq> Some ''adapter'')"

definition platform_token :: "'a Engine_scheme \<Rightarrow> ChatRequest \<Rightarrow> string" where
  "platform_token engine request = toLowerCase engine (trim (prompt request))"

text \<open>The state a free-text turn at step \<open>Alternative\<close> hands to the code generation.\<close>

definition completed :: "ChatRequest \<Rightarrow> ConversationState \<Rightarrow> ConversationState" where
  "completed request s = s\<lparr>alternativeFunction := Some (trim (prompt request)), step := Complete\<rparr>"

text \<open>
  The rejected inputs of the specification. A platform token is invalid when it is none
  of \<^verbatim>\<open>posix\<close>, \<^verbatim>\<open>autosar\<close> and \<^verbatim>\<open>motionwise\<close>. A selection matches a key of the catalog by
  index, when it is one of \<^verbatim>\<open>1\<close> to \<^verbatim>\<open>6\<close>, or by name, when in lower case it is one of the
  seven names of the catalog; any other selection is unmatched. At step \<open>Initial\<close> every
  text that is not a directive is turned down.
\<close>

definition catalog_match :: "'a Engine_scheme \<Rightarrow> string \<Rightarrow> bool" where
  "catalog_match engine userMessage =
     (userMessage \<in> set [''1'', ''2'', ''3'', ''4'', ''5'', ''6''] \<or>
      toLowerCase engine userMessage \<in>
        set [''cp-rdb2'', ''cp-rdb3'', ''sv62'', ''s324sdv'', ''ch63_2'', ''generic'', ''unknown''])"

definition spec_rejected :: "'a Engine_scheme \<Rightarrow> ChatRequest \<Rightarrow> ConversationState \<Rightarrow> bool" where
  "spec_rejected engine request s =
     (if command request = Some ''integrate'' then
        platform_token engine request \<notin> set [''posix'', ''autosar'', ''motionwise'']
      else
        free_text request \<and>
        (if step s = Initial then True
         else step s = Config \<and> \<not> catalog_match engine (trim (prompt request))))"

text \<open>
  The unmatched selections that the code takes nevertheless: the text is no member of
  \<^verbatim>\<open>Object.prototype\<close> by itself, so the read of \<^verbatim>\<open>configMap\<close> finds nothing, and in lower
  case it is the name of one, so the read of \<^verbatim>\<open>MOTIONWISE_PATHS\<close> finds the inherited member.
\<close>

definition inherited_selection :: "'a Engine_scheme \<Rightarrow> ChatRequest \<Rightarrow> ConversationState \<Rightarrow> bool" where
  "inherited_selection engine request s =
     (free_text request \<and> step s = Config \<and>
      trim (prompt request) \<notin> set object_prototype_keys \<and>
      toLowerCase engine (trim (prompt request)) \<in> set object_prototype_keys)"


text \<open>
  The sequence of the specification, as a relation between a step and the step one position
  after it: AWAITING_START, optionally AWAITING_VARIANT_SELECTION, AWAITING_MEMORY_FN,
  AWAITING_DATASET_FN, AWAITING_ALT_FN, DONE, and AWAITING_START again.
\<close>

fun spec_forward :: "Step \<Rightarrow> Step \<Rightarrow> bool" where
  "spec_forward Initial t = (t = Config \<or> t = Memory)"
| "spec_forward Config t = (t = Memory)"
| "spec_forward Memory t = (t = Dataset)"
| "spec_forward Dataset t = (t = Alternative)"
| "spec_forward Alternative t = (t = Complete)"
| "spec_forward Complete t = (t = Initial)"

text \<open>Whether a response of the language model ends with an exception.\<close>

fun raises :: "lm_response \<Rightarrow> bool" where
  "raises (Rejected e) = True"
| "raises (Text chunks e) = (e \<noteq> None)"

text \<open>
  Two states agree when they are at the same step and hold the same values in the fields
  that the turns before that step have written in the current run of the sequence.
\<close>

definition agree :: "ConversationState \<Rightarrow> ConversationState \<Rightarrow> bool" where
  "agree s t =
     (step s = step t \<and>
      (if step s = Initial then True
       else platform s = platform t \<and>
         (if step s = Config then True
          else integrationPath s = integrationPath t \<and>
            (if step s = Memory then True
             else memoryFunction s = memoryFunction t \<and>
               (if step s = Dataset then True
                else datasetFunction s = datasetFunction t \<and>
                  (if step s = Alternative then True
                   else alternativeFunction s = alternativeFunction t))))))"

section \<open>Example inputs\<close>

definition say :: "string \<Rightarrow> ChatRequest" where
  "say text = \<lparr>command = None, prompt = text\<rparr>"

definition integrate :: "string \<Rightarrow> ChatRequest" where
  "integrate token = \<lparr>command = Some ''integrate'', prompt = token\<rparr>"

definition empty_workspace :: WorkspaceAnalysis where
  "empty_workspace =
     \<lparr>detectedPlatform = None, detectedMotionWiseConfig = None, memoryFunctions = [],
      datasetFunctions = [], existingIntegrationFiles = []\<rparr>"

text \<open>
  Four hosts: one with no language model, one whose model answers, one whose request is
  cancelled after the first chunk and ends with an exception, and one whose request is
  cancelled after the first chunk and ends its text there, without an exception. The texts
  of the examples are ASCII or white space, so the case mappings of the engine for other
  strings are not used; the example hosts leave such strings as they are.
\<close>

definition no_model :: Host where
  "no_model =
     \<lparr>unicodeToLowerCase = (\<lambda>s. s), unicodeToUpperCase = (\<lambda>s. s),
      analyzeWorkspace = Inr empty_workspace, selectChatModels = Inr []\<rparr>"

definition answering :: Host where
  "answering =
     \<lparr>unicodeToLowerCase = (\<lambda>s. s), unicodeToUpperCase = (\<lambda>s. s),
      analyzeWorkspace = Inr empty_workspace,
      selectChatModels = Inr [\<lambda>messages. Text [''/* dmiu_integration.h */''] None]\<rparr>"

definition cancelling :: Host where
  "cancelling =
     \<lparr>unicodeToLowerCase = (\<lambda>s. s), unicodeToUpperCase = (\<lambda>s. s),
      analyzeWorkspace = Inr empty_workspace,
      selectChatModels = Inr [\<lambda>messages. Text [''/* dmiu_'' ] (Some (Thrown ''Canceled''))]\<rparr>"

definition cancelled_quietly :: Host where
  "cancelled_quietly =
     \<lparr>unicodeToLowerCase = (\<lambda>s. s), unicodeToUpperCase = (\<lambda>s. s),
      analyzeWorkspace = Inr empty_workspace,
      selectChatModels = Inr [\<lambda>messages. Text [''/* dmiu_'' ] None]\<rparr>"

text \<open>A POSIX session after the memory question, after the dataset question, and after a
  MotionWise directive in a workspace where no configuration is detected.\<close>

definition posix_at_memory :: ConversationState where
  "posix_at_memory =
     \<lparr>step = Memory, platform = Some Posix, motionwiseConfig = None,
      integrationPath = Some (Str ''1800-EcuIntegration/[PLATFORM]/core/development/dmiu''),
      memoryFunction = None, datasetFunction = None, alternativeFunction = None\<rparr>"

definition posix_at_dataset :: ConversationState where
  "posix_at_dataset =
     \<lparr>step = Dataset, platform = Some Posix, motionwiseConfig = None,
      integrationPath = Some (Str ''1800-EcuIntegration/[PLATFORM]/core/development/dmiu''),
      memoryFunction = Some ''ShmM_MapOwner'', datasetFunction = None,
      alternativeFunction = None\<rparr>"

definition posix_at_alternative :: ConversationState where
  "posix_at_alternative =
     \<lparr>step = Alternative, platform = Some Posix, motionwiseConfig = None,
      integrationPath = Some (Str ''1800-EcuIntegration/[PLATFORM]/core/development/dmiu''),
      memoryFunction = Some ''ShmM_MapOwner'', datasetFunction = Some ''MyReader'',
      alternativeFunction = None\<rparr>"

definition motionwise_at_config :: ConversationState where
  "motionwise_at_config =
     \<lparr>step = Config, platform = Some Posix, motionwiseConfig = None, integrationPath = None,
      memoryFunction = None, datasetFunction = None, alternativeFunction = None\<rparr>"

text \<open>A text with white space of one, two and three bytes around it, and a blank one.\<close>

definition padded :: "string \<Rightarrow> string" where
  "padded text =
     [CHR 0x20, CHR 0xC2, CHR 0xA0] @ text @ [CHR 0x09, CHR 0xE2, CHR 0x80, CHR 0xA8, CHR 0x0A]"

section \<open>Lemmas on the handlers\<close>

lemma strip_unchanged:
  "leading tokens s = None \<Longrightarrow> strip tokens s = s"
  by (simp add: strip.simps)

lemma trim_unchanged:
  assumes "leading whitespace s = None" and "leading (map rev whitespace) (rev s) = None"
  shows "trim s = s"
  using assms by (simp add: trim_def trimStart_def trimEnd_def strip_unchanged)

text \<open>On ASCII text the case mappings are the same for every engine.\<close>

lemma ascii_case_mapping:
  assumes "ascii_only s"
  shows "toLowerCase engine s = toLowerCase engine' s"
    and "toUpperCase engine s = toUpperCase engine' s"
  using assms by (simp_all add: toLowerCase_def toUpperCase_def)

lemma state_handleConversationFlow:
  "state (handleConversationFlow request host s) =
     (if step s = Initial then s
      else if step s = Config then
        (if config_accepted host (trim (prompt request)) then
           s\<lparr>motionwiseConfig := Some (selectedConfig host (trim (prompt request))),
             integrationPath :=
               get_property MOTIONWISE_PATHS
                 (to_string (selectedConfig host (trim (prompt request)))),
             step := Memory\<rparr>
         else s)
      else if step s = Memory then
        s\<lparr>memoryFunction := Some (trim (prompt request)), step := Dataset\<rparr>
      else if step s = Dataset then
        s\<lparr>datasetFunction := Some (trim (prompt request)), step := Alternative\<rparr>
      else if step s = Alternative then
        (if thrown (generateIntegrationCode (completed request s) host) = None
         then (completed request s)\<lparr>step := Initial\<rparr>
         else completed request s)
      else s)"
  by (simp add: handleConversationFlow_def completed_def Let_def split: option.split)

lemma state_handleIntegrateCommand:
  "state (handleIntegrateCommand request host s) =
     (if platform_token host request \<noteq> ''posix'' \<and> platform_token host request \<noteq> ''autosar'' \<and>
         platform_token host request \<noteq> ''motionwise''
      then s
      else
        (case analyzeWorkspace host of
           Inl e \<Rightarrow>
             s\<lparr>platform :=
                 Some (if platform_token host request = ''autosar'' then Autosar else Posix)\<rparr>
         | Inr analysis \<Rightarrow>
             if platform_token host request = ''motionwise'' then
               (case detectedMotionWiseConfig analysis of
                  Some detected \<Rightarrow>
                    if detected \<noteq> Unknown then
                      s\<lparr>platform := Some Posix,
                        motionwiseConfig := Some (Str (config_name detected)),
                        integrationPath := get_property MOTIONWISE_PATHS (config_name detected),
                        step := Memory\<rparr>
                    else s\<lparr>platform := Some Posix, step := Config\<rparr>
                | None \<Rightarrow> s\<lparr>platform := Some Posix, step := Config\<rparr>)
             else
               s\<lparr>platform :=
                   Some (if platform_token host request = ''autosar'' then Autosar else Posix),
                 step := Memory,
                 integrationPath :=
                   Some (Str ''1800-EcuIntegration/[PLATFORM]/core/development/dmiu'')\<rparr>))"
  by (simp add: handleIntegrateCommand_def platform_token_def Let_def
           split: option.split sum.split)

lemma state_handleRequest:
  "state (handleRequest request host s) =
     (if command request = Some ''integrate'' then state (handleIntegrateCommand request host s)
      else if command request = Some ''validate'' then s
      else if command request = Some ''adapter'' then s
      else state (handleConversationFlow request host s))"
  by (simp add: handleRequest_def Let_def split: option.split js_error.split)

lemma state_free_text:
  "free_text request \<Longrightarrow>
   state (handleRequest request host s) = state (handleConversationFlow request host s)"
  by (simp add: state_handleRequest free_text_def)

lemma thrown_generateIntegrationCode:
  "thrown (generateIntegrationCode s host) =
     (case selectChatModels host of
        Inl e \<Rightarrow> Some e
      | Inr [] \<Rightarrow> None
      | Inr (model # models) \<Rightarrow>
          (case model [DFU_KNOWLEDGE, buildCodeGenerationPrompt host s] of
             Rejected e \<Rightarrow> Some e
           | Text chunks e \<Rightarrow> e))"
  by (simp add: generateIntegrationCode_def Let_def
           split: sum.split list.split lm_response.split)

lemma trim_examples [simp]:
  "trim ''posix'' = ''posix''"
  "trim ''motionwise'' = ''motionwise''"
  "trim ''  Autosar '' = ''Autosar''"
  "trim ''windows'' = ''windows''"
  "trim ''ShmM_MapOwner'' = ''ShmM_MapOwner''"
  "trim ''MyReader'' = ''MyReader''"
  "trim ''none'' = ''none''"
  "trim ''static'' = ''static''"
  "trim ''hello'' = ''hello''"
  "trim ''42'' = ''42''"
  "trim '' SV62 '' = ''SV62''"
  "trim ''CONSTRUCTOR'' = ''CONSTRUCTOR''"
  "trim (padded ''My Reader'') = ''My Reader''"
  "trim (padded []) = []"
  by (simp_all add: trim_def trimStart_def trimEnd_def strip.simps leading_def whitespace_def
        padded_def)

lemma platform_token_integrate [simp]:
  "platform_token engine (integrate ''posix'') = ''posix''"
  "platform_token engine (integrate ''motionwise'') = ''motionwise''"
  "platform_token engine (integrate ''  Autosar '') = ''autosar''"
  "platform_token engine (integrate ''windows'') = ''windows''"
  by (simp_all add: platform_token_def integrate_def toLowerCase_def ascii_only_def)

lemma command_examples [simp]:
  "command (integrate token) = Some ''integrate''"
  "command (say text) = None"
  "prompt (say text) = text"
  "free_text (say text)"
  "\<not> free_text (integrate token)"
  by (simp_all add: integrate_def say_def free_text_def)

lemma selection_examples [simp]:
  "\<not> config_accepted engine ''42''"
  "config_accepted engine ''SV62''"
  "config_accepted engine ''CONSTRUCTOR''"
  "\<not> catalog_match engine ''42''"
  "\<not> catalog_match engine ''CONSTRUCTOR''"
  "toLowerCase engine ''CONSTRUCTOR'' = ''constructor''"
  "selectedConfig engine ''CONSTRUCTOR'' = Str ''constructor''"
  by (simp_all add: config_accepted_def selectedConfig_def catalog_match_def get_property_def
        configMap_def MOTIONWISE_PATHS_def object_prototype_keys_def toLowerCase_def
        ascii_only_def)

text \<open>The example states are states of sessions that start from a fresh state.\<close>

lemma example_states_reached:
  "run [(integrate ''posix'', no_model)] fresh_state = posix_at_memory"
  "run [(integrate ''posix'', no_model), (say ''ShmM_MapOwner'', no_model)] fresh_state
     = posix_at_dataset"
  "run [(integrate ''posix'', no_model), (say ''ShmM_MapOwner'', no_model),
        (say ''MyReader'', no_model)] fresh_state
     = posix_at_alternative"
  "run [(integrate ''motionwise'', no_model)] fresh_state = motionwise_at_config"
  by (simp_all add: state_handleRequest state_handleIntegrateCommand state_handleConversationFlow
        fresh_state_def no_model_def empty_workspace_def posix_at_memory_def posix_at_dataset_def
        posix_at_alternative_def motionwise_at_config_def)

section \<open>Strict forward progress (C1)\<close>




section \<open>Rejected input (C2)\<close>

lemma unmatched_selection:
  assumes "\<not> catalog_match engine userMessage"
  shows "config_accepted engine userMessage =
           (userMessage \<notin> set object_prototype_keys \<and>
            toLowerCase engine userMessage \<in> set object_prototype_keys)"
    and "userMessage \<notin> set object_prototype_keys \<Longrightarrow>
         selectedConfig engine userMessage = Str (toLowerCase engine userMessage)"
    and "toLowerCase engine userMessage \<in> set object_prototype_keys \<Longrightarrow>
         get_property MOTIONWISE_PATHS (toLowerCase engine userMessage)
           = Some (Inherited (toLowerCase engine userMessage))"
proof -
  from assms have index: "map_of configMap userMessage = None"
    and name: "map_of MOTIONWISE_PATHS (toLowerCase engine userMessage) = None"
    by (auto simp add: catalog_match_def configMap_def MOTIONWISE_PATHS_def)
  show selected: "selectedConfig engine userMessage = Str (toLowerCase engine userMessage)"
    if "userMessage \<notin> set object_prototype_keys"
    using that index by (simp add: selectedConfig_def get_property_def)
  show path: "get_property MOTIONWISE_PATHS (toLowerCase engine userMessage)
      = Some (Inherited (toLowerCase engine userMessage))"
    if "toLowerCase engine userMessage \<in> set object_prototype_keys"
    using that name by (simp add: get_property_def)
  show "config_accepted engine userMessage =
      (userMessage \<notin> set object_prototype_keys \<and>
       toLowerCase engine userMessage \<in> set object_prototype_keys)"
  proof (cases "userMessage \<in> set object_prototype_keys")
    case True
    with index have "selectedConfig engine userMessage = Inherited userMessage"
      by (simp add: selectedConfig_def get_property_def)
    moreover from True
    have "get_property MOTIONWISE_PATHS (to_string (Inherited userMessage)) = None"
      by (auto simp add: get_property_def MOTIONWISE_PATHS_def object_prototype_keys_def)
    ultimately show ?thesis
      using True by (simp add: config_accepted_def)
  next
    case False
    show ?thesis
    proof (cases "toLowerCase engine userMessage \<in> set object_prototype_keys")
      case True
      then have "toLowerCase engine userMessage \<noteq> []"
        by (auto simp add: object_prototype_keys_def)
      with False True show ?thesis
        by (simp add: config_accepted_def selected [OF False] path [OF True])
    next
      case no: False
      with name have "get_property MOTIONWISE_PATHS (toLowerCase engine userMessage) = None"
        by (simp add: get_property_def)
      with False no show ?thesis
        by (simp add: config_accepted_def selected [OF False])
    qed
  qed
qed

text \<open>
  C2 holds for the invalid platform tokens, for the texts at step \<open>Initial\<close> and for the
  unmatched selections but those of \<open>inherited_selection\<close>: there the code reads a member of
  \<^verbatim>\<open>Object.prototype\<close> out of \<^verbatim>\<open>MOTIONWISE_PATHS\<close>, takes it for the integration path and
  moves on to the memory question, against the claim and against the message of its own
  \<^verbatim>\<open>else\<close> branch. The theorem gives the state after every rejected input, and that a
  rejected input of the other kinds can be repeated any number of times.
\<close>

theorem rejected_input_state:
  assumes "spec_rejected host request s"
  shows "state (handleRequest request host s) =
     (if inherited_selection host request s then
        s\<lparr>motionwiseConfig := Some (Str (toLowerCase host (trim (prompt request)))),
          integrationPath := Some (Inherited (toLowerCase host (trim (prompt request)))),
          step := Memory\<rparr>
      else s) \<and>
     (\<not> inherited_selection host request s \<longrightarrow> run (replicate n (request, host)) s = s)"
proof -
  have one: "state (handleRequest request host s) =
     (if inherited_selection host request s then
        s\<lparr>motionwiseConfig := Some (Str (toLowerCase host (trim (prompt request)))),
          integrationPath := Some (Inherited (toLowerCase host (trim (prompt request)))),
          step := Memory\<rparr>
      else s)"
  proof (cases "command request = Some ''integrate''")
    case True
    with assms show ?thesis
      by (simp add: spec_rejected_def inherited_selection_def free_text_def
            state_handleRequest state_handleIntegrateCommand)
  next
    case False
    with assms have ft: "free_text request"
      and st: "step s = Initial \<or>
        (step s = Config \<and> \<not> catalog_match host (trim (prompt request)))"
      by (auto simp add: spec_rejected_def split: if_splits)
    from st show ?thesis
    proof
      assume "step s = Initial"
      then show ?thesis
        by (simp add: state_free_text [OF ft] state_handleConversationFlow
              inherited_selection_def)
    next
      assume config: "step s = Config \<and> \<not> catalog_match host (trim (prompt request))"
      then have unmatched: "\<not> catalog_match host (trim (prompt request))"
        by simp
      from config ft show ?thesis
        by (auto simp add: state_free_text [OF ft] state_handleConversationFlow
              inherited_selection_def unmatched_selection [OF unmatched])
    qed
  qed
  have "run (replicate n (request, host)) s = s" if "\<not> inherited_selection host request s"
    using that one by (induction n) simp_all
  with one show ?thesis
    by blast
qed

theorem rejected_input_state_witness:
  "spec_rejected no_model (say ''CONSTRUCTOR'') motionwise_at_config \<and>
   state (handleRequest (say ''CONSTRUCTOR'') no_model motionwise_at_config) =
     motionwise_at_config
       \<lparr>motionwiseConfig := Some (Str ''constructor''),
        integrationPath := Some (Inherited ''constructor''), step := Memory\<rparr> \<and>
   spec_rejected no_model (say ''42'') motionwise_at_config \<and>
   run (replicate 3 (say ''42'', no_model)) motionwise_at_config = motionwise_at_config \<and>
   spec_rejected no_model (integrate ''windows'') posix_at_dataset \<and>
   state (handleRequest (integrate ''windows'') no_model posix_at_dataset) = posix_at_dataset \<and>
   spec_rejected no_model (say ''hello'') fresh_state \<and>
   run (replicate 2 (say ''hello'', no_model)) fresh_state = fresh_state"
proof -
  have a: "spec_rejected no_model (say ''CONSTRUCTOR'') motionwise_at_config"
    by (simp add: spec_rejected_def motionwise_at_config_def)
  have a': "inherited_selection no_model (say ''CONSTRUCTOR'') motionwise_at_config"
    by (simp add: inherited_selection_def motionwise_at_config_def object_prototype_keys_def)
  have b: "spec_rejected no_model (say ''42'') motionwise_at_config"
    by (simp add: spec_rejected_def motionwise_at_config_def)
  have b': "\<not> inherited_selection no_model (say ''42'') motionwise_at_config"
    by (simp add: inherited_selection_def object_prototype_keys_def toLowerCase_def
          ascii_only_def)
  have c: "spec_rejected no_model (integrate ''windows'') posix_at_dataset"
    by (simp add: spec_rejected_def)
  have c': "\<not> inherited_selection no_model (integrate ''windows'') posix_at_dataset"
    by (simp add: inherited_selection_def)
  have d: "spec_rejected no_model (say ''hello'') fresh_state"
    by (simp add: spec_rejected_def fresh_state_def)
  have d': "\<not> inherited_selection no_model (say ''hello'') fresh_state"
    by (simp add: inherited_selection_def fresh_state_def)
  from rejected_input_state [OF a] a'
  have e: "state (handleRequest (say ''CONSTRUCTOR'') no_model motionwise_at_config) =
     motionwise_at_config
       \<lparr>motionwiseConfig := Some (Str ''constructor''),
        integrationPath := Some (Inherited ''constructor''), step := Memory\<rparr>"
    by simp
  from rejected_input_state [OF b, of 3] b'
  have f: "run (replicate 3 (say ''42'', no_model)) motionwise_at_config = motionwise_at_config"
    by blast
  from rejected_input_state [OF c, of 0] c'
  have g: "state (handleRequest (integrate ''windows'') no_model posix_at_dataset)
      = posix_at_dataset"
    by simp
  from rejected_input_state [OF d, of 2] d'
  have h: "run (replicate 2 (say ''hello'', no_model)) fresh_state = fresh_state"
    by blast
  show ?thesis
    using a b c d e f g h by blast
qed

section \<open>The conversation store (C3)\<close>

text \<open>
  C3, as stated, fails in its last part. A state registered under a key \<open>K\<close> is found by a
  query under \<open>K + 1\<close> only through the fallback, and the fallback is not reached when the
  store has an entry under \<open>K + 1\<close> itself. Here a turn with a history of length 1 has
  registered object 0 under key 2; then a turn with an empty history registers a new object,
  1, under key 1; the query under key 2 that follows returns object 0.
\<close>

theorem key_skew_counterexample:
  "fst (getOrCreateState 0 (snd (getOrCreateState 1 activate))) = 1 \<and>
   conversationStates (snd (getOrCreateState 0 (snd (getOrCreateState 1 activate)))) 1 = Some 1 \<and>
   fst (getOrCreateState 2 (snd (getOrCreateState 0 (snd (getOrCreateState 1 activate))))) = 0"
  by (simp add: getOrCreateState_def activate_def Let_def)

text \<open>
  C3, amended. For every history length \<open>k\<close>: the lookup returns the entry under \<open>k\<close> if
  there is one, else the entry under \<open>k - 1\<close> if there is one, and in both cases no object is
  created or changed; else it creates a new object, which is a fresh state at step
  \<open>Initial\<close>. In every case the reference is registered under \<open>k + 1\<close> and no other key
  changes. So a query under \<open>k + 2\<close> before any further write returns the same reference,
  provided the store has no entry under \<open>k + 2\<close> itself; and after a whole turn that query
  finds the object as the turn left it.
\<close>

theorem getOrCreateState_lookup:
  "fst (getOrCreateState k rt) =
     (case conversationStates rt (int k) of
        Some r \<Rightarrow> r
      | None \<Rightarrow> (case conversationStates rt (int k - 1) of Some r \<Rightarrow> r | None \<Rightarrow> allocated rt)) \<and>
   objects (snd (getOrCreateState k rt)) =
     (if conversationStates rt (int k) = None \<and> conversationStates rt (int k - 1) = None
      then (objects rt)(allocated rt := fresh_state) else objects rt) \<and>
   step fresh_state = Initial \<and>
   conversationStates (snd (getOrCreateState k rt)) =
     (conversationStates rt)(int k + 1 \<mapsto> fst (getOrCreateState k rt)) \<and>
   (conversationStates rt (int (k + 2)) = None \<longrightarrow>
      fst (getOrCreateState (k + 2) (snd (getOrCreateState k rt))) = fst (getOrCreateState k rt) \<and>
      fst (getOrCreateState (k + 2) (fst (chatParticipant k request host rt)))
        = fst (getOrCreateState k rt) \<and>
      objects (fst (chatParticipant k request host rt)) (fst (getOrCreateState k rt))
        = state (handleRequest request host
            (objects (snd (getOrCreateState k rt)) (fst (getOrCreateState k rt)))))"
  by (simp add: getOrCreateState_def chatParticipant_def fresh_state_def Let_def
        split: option.split prod.split)

theorem getOrCreateState_lookup_witness:
  "conversationStates (snd (getOrCreateState 0 activate)) (int (0 + 2)) = None \<and>
   fst (getOrCreateState 0 activate) = 0 \<and>
   conversationStates (snd (getOrCreateState 0 activate)) 1 = Some 0 \<and>
   fst (getOrCreateState 2 (snd (getOrCreateState 0 activate))) = 0 \<and>
   fst (getOrCreateState (2 + 2) (snd (getOrCreateState 2 (snd (getOrCreateState 0 activate))))) = 0"
proof -
  have a: "conversationStates activate (int (0 + 2)) = None"
    by (simp add: activate_def)
  have b: "conversationStates (snd (getOrCreateState 0 activate)) (int (2 + 2)) = None"
    by (simp add: getOrCreateState_def activate_def Let_def)
  have c: "conversationStates (snd (getOrCreateState 0 activate)) (int (0 + 2)) = None"
    by (simp add: getOrCreateState_def activate_def Let_def)
  show ?thesis
    using a b c getOrCreateState_lookup [of 0 activate]
      getOrCreateState_lookup [of 2 "snd (getOrCreateState 0 activate)"]
    by (simp add: activate_def)
qed

section \<open>After the generation (C4)\<close>

lemma generateIntegrationCode_cong:
  assumes "platform s = platform t" "memoryFunction s = memoryFunction t"
    "datasetFunction s = datasetFunction t" "alternativeFunction s = alternativeFunction t"
  shows "generateIntegrationCode s host = generateIntegrationCode t host"
  unfolding generateIntegrationCode_def buildCodeGenerationPrompt_def assms
  by (rule refl)

lemma handleIntegrateCommand_reply:
  "stream (handleIntegrateCommand request host s) = stream (handleIntegrateCommand request host t) \<and>
   requests (handleIntegrateCommand request host s) = requests (handleIntegrateCommand request host t) \<and>
   thrown (handleIntegrateCommand request host s) = thrown (handleIntegrateCommand request host t)"
  by (simp add: handleIntegrateCommand_def first_question_def Let_def
        split: sum.split option.split)

lemma handleIntegrateCommand_agree:
  assumes "agree s t"
  shows "agree (state (handleIntegrateCommand request host s))
           (state (handleIntegrateCommand request host t))"
proof (cases "analyzeWorkspace host")
  case (Inl e)
  with assms show ?thesis
    by (simp add: state_handleIntegrateCommand agree_def)
next
  case (Inr analysis)
  with assms show ?thesis
    by (simp add: state_handleIntegrateCommand agree_def split: option.split)
qed

lemma handleConversationFlow_reply:
  assumes "agree s t"
  shows "stream (handleConversationFlow request host s) = stream (handleConversationFlow request host t) \<and>
   requests (handleConversationFlow request host s) = requests (handleConversationFlow request host t) \<and>
   thrown (handleConversationFlow request host s) = thrown (handleConversationFlow request host t)"
proof (cases "step s = Alternative")
  case True
  with assms have "step t = Alternative" "platform s = platform t"
    "memoryFunction s = memoryFunction t" "datasetFunction s = datasetFunction t"
    by (simp_all add: agree_def)
  then have "generateIntegrationCode (completed request s) host
      = generateIntegrationCode (completed request t) host"
    by (intro generateIntegrationCode_cong) (simp_all add: completed_def)
  with True \<open>step t = Alternative\<close> show ?thesis
    by (simp add: handleConversationFlow_def completed_def Let_def split: option.split)
next
  case False
  with assms have "step t = step s"
    by (simp add: agree_def)
  with False show ?thesis
    by (simp add: handleConversationFlow_def Let_def)
qed

lemma handleConversationFlow_agree:
  assumes "agree s t"
  shows "agree (state (handleConversationFlow request host s))
           (state (handleConversationFlow request host t))"
proof (cases "step s = Alternative")
  case True
  with assms have "step t = Alternative" "platform s = platform t"
    "memoryFunction s = memoryFunction t" "datasetFunction s = datasetFunction t"
    "integrationPath s = integrationPath t"
    by (simp_all add: agree_def)
  moreover from this have "generateIntegrationCode (completed request s) host
      = generateIntegrationCode (completed request t) host"
    by (intro generateIntegrationCode_cong) (simp_all add: completed_def)
  ultimately show ?thesis
    using True by (simp add: state_handleConversationFlow agree_def completed_def)
next
  case False
  with assms show ?thesis
    by (cases "step s") (simp_all add: state_handleConversationFlow agree_def)
qed

lemma handleRequest_agree:
  assumes "agree s t"
  shows "stream (handleRequest request host s) = stream (handleRequest request host t) \<and>
    requests (handleRequest request host s) = requests (handleRequest request host t) \<and>
    agree (state (handleRequest request host s)) (state (handleRequest request host t))"
  using assms handleIntegrateCommand_reply [of request host s t]
    handleIntegrateCommand_agree [OF assms, of request host]
    handleConversationFlow_reply [OF assms, of request host]
    handleConversationFlow_agree [OF assms, of request host]
  by (simp add: handleRequest_def Let_def split: option.split js_error.split)

lemma transcript_agree:
  "agree s t \<Longrightarrow> transcript turns s = transcript turns t"
proof (induction turns arbitrary: s t)
  case Nil
  show ?case by simp
next
  case (Cons turn turns)
  obtain request host where turn: "turn = (request, host)"
    by (cases turn)
  from handleRequest_agree [OF Cons.prems, of request host]
  show ?case
    by (simp add: turn Cons.IH)
qed

text \<open>
  C4, as stated, fails: the turn at step \<open>Alternative\<close> ends with the assignment of
  \<^verbatim>\<open>'initial'\<close> to \<^verbatim>\<open>state.step\<close> and resets nothing else. After a completed POSIX session
  the platform, the path and the three functions are still in the state.
\<close>

theorem captured_values_kept_counterexample:
  "state (handleRequest (say ''none'') answering posix_at_alternative) =
     \<lparr>step = Initial, platform = Some Posix, motionwiseConfig = None,
      integrationPath = Some (Str ''1800-EcuIntegration/[PLATFORM]/core/development/dmiu''),
      memoryFunction = Some ''ShmM_MapOwner'', datasetFunction = Some ''MyReader'',
      alternativeFunction = Some ''none''\<rparr>"
  by (simp add: state_free_text state_handleConversationFlow thrown_generateIntegrationCode
        completed_def posix_at_alternative_def answering_def)

text \<open>
  C4, amended. When the generation of the turn at step \<open>Alternative\<close> returns, the step goes
  back to \<open>Initial\<close> and the captured values stay in the state, the alternative function among
  them. None of them reaches a later generation: from there on every turn streams the same
  chunks and sends the same requests to the language model as it does in a session that
  starts with a fresh state, whatever the turns and the answers of the host are.
\<close>

theorem completed_session_not_reused:
  assumes "free_text request" and "step s = Alternative"
    and "thrown (generateIntegrationCode (completed request s) host) = None"
  shows "state (handleRequest request host s) =
           s\<lparr>alternativeFunction := Some (trim (prompt request)), step := Initial\<rparr> \<and>
         transcript turns (state (handleRequest request host s)) = transcript turns fresh_state"
proof -
  have after: "state (handleRequest request host s) =
      s\<lparr>alternativeFunction := Some (trim (prompt request)), step := Initial\<rparr>"
    using assms by (simp add: state_free_text state_handleConversationFlow completed_def)
  have "agree (s\<lparr>alternativeFunction := Some (trim (prompt request)), step := Initial\<rparr>) fresh_state"
    by (simp add: agree_def fresh_state_def)
  then show ?thesis
    by (simp add: after transcript_agree)
qed

theorem completed_session_not_reused_witness:
  "free_text (say ''none'') \<and> step posix_at_alternative = Alternative \<and>
   thrown (generateIntegrationCode (completed (say ''none'') posix_at_alternative) answering) = None \<and>
   alternativeFunction (state (handleRequest (say ''none'') answering posix_at_alternative))
     = Some ''none'' \<and>
   transcript [(integrate ''  Autosar '', no_model), (say ''static'', no_model)]
       (state (handleRequest (say ''none'') answering posix_at_alternative))
     = transcript [(integrate ''  Autosar '', no_model), (say ''static'', no_model)] fresh_state"
proof -
  have a: "free_text (say ''none'')"
    by simp
  have b: "step posix_at_alternative = Alternative"
    by (simp add: posix_at_alternative_def)
  have c: "thrown (generateIntegrationCode (completed (say ''none'') posix_at_alternative) answering)
      = None"
    by (simp add: thrown_generateIntegrationCode answering_def)
  note after = completed_session_not_reused [OF a b c,
      of "[(integrate ''  Autosar '', no_model), (say ''static'', no_model)]"]
  from after have d:
    "alternativeFunction (state (handleRequest (say ''none'') answering posix_at_alternative))
      = Some ''none''"
    by simp
  from after have e:
    "transcript [(integrate ''  Autosar '', no_model), (say ''static'', no_model)]
       (state (handleRequest (say ''none'') answering posix_at_alternative))
     = transcript [(integrate ''  Autosar '', no_model), (say ''static'', no_model)] fresh_state"
    by (rule conjunct2)
  show ?thesis
    using a b c d e by blast
qed

section \<open>Cancellation (C5)\<close>

text \<open>
  C5, as stated, fails: the turn at step \<open>Alternative\<close> writes the alternative function and
  the step before it awaits the generation, and nothing undoes the two writes when the
  request to the language model is cancelled. Here the request is cancelled after its first
  chunk.
\<close>

theorem cancelled_turn_counterexample:
  "state (handleRequest (say ''none'') cancelling posix_at_alternative) =
     posix_at_alternative\<lparr>alternativeFunction := Some ''none'', step := Complete\<rparr> \<and>
   state (handleRequest (say ''none'') cancelling posix_at_alternative) \<noteq> posix_at_alternative"
  by (simp add: state_free_text state_handleConversationFlow thrown_generateIntegrationCode
        completed_def posix_at_alternative_def cancelling_def)

text \<open>
  C5, amended. The cancellation signal reaches the request to the language model only, in
  the turn at step \<open>Alternative\<close>. Whatever that request does, the turn leaves the platform,
  the configuration, the path, the memory function and the dataset function as they were
  before the turn; the alternative function holds the trimmed text of the turn; and the
  step is \<open>Complete\<close> when the request ends with an exception, \<open>Initial\<close> when it ends
  without one.
\<close>

theorem cancelled_generation_state:
  assumes "free_text request" and "step s = Alternative"
    and "selectChatModels host = Inr (model # models)"
  shows "state (handleRequest request host s) =
     s\<lparr>alternativeFunction := Some (trim (prompt request)),
       step := (if raises (model [DFU_KNOWLEDGE, buildCodeGenerationPrompt host (completed request s)])
                then Complete else Initial)\<rparr>"
proof (cases "model [DFU_KNOWLEDGE, buildCodeGenerationPrompt host (completed request s)]")
  case (Rejected e)
  with assms show ?thesis
    by (simp add: state_free_text state_handleConversationFlow thrown_generateIntegrationCode
          completed_def)
next
  case (Text chunks e)
  with assms show ?thesis
    by (cases e)
      (simp_all add: state_free_text state_handleConversationFlow thrown_generateIntegrationCode
         completed_def)
qed

theorem cancelled_generation_state_witness:
  "free_text (say ''none'') \<and> step posix_at_alternative = Alternative \<and>
   selectChatModels cancelling = Inr [\<lambda>messages. Text [''/* dmiu_'' ] (Some (Thrown ''Canceled''))] \<and>
   state (handleRequest (say ''none'') cancelling posix_at_alternative) =
     posix_at_alternative\<lparr>alternativeFunction := Some ''none'', step := Complete\<rparr>"
proof -
  have a: "free_text (say ''none'')"
    by simp
  have b: "step posix_at_alternative = Alternative"
    by (simp add: posix_at_alternative_def)
  have c: "selectChatModels cancelling
      = Inr [\<lambda>messages. Text [''/* dmiu_'' ] (Some (Thrown ''Canceled''))]"
    by (simp add: cancelling_def)
  from cancelled_generation_state [OF a b c]
  have d: "state (handleRequest (say ''none'') cancelling posix_at_alternative) =
     posix_at_alternative\<lparr>alternativeFunction := Some ''none'', step := Complete\<rparr>"
    by simp
  show ?thesis
    using a b c d by blast
qed

section \<open>The catalog of integration paths (C6)\<close>

text \<open>
  C6: reading \<^verbatim>\<open>MOTIONWISE_PATHS\<close> at any of the seven identifiers of \<^verbatim>\<open>MotionWiseConfig\<close>
  gives a non-empty string, and at \<^verbatim>\<open>generic\<close> and at \<^verbatim>\<open>unknown\<close> it gives the path with the
  placeholder \<^verbatim>\<open>[PLATFORM]\<close>.
\<close>

theorem MOTIONWISE_PATHS_total:
  "(\<exists>path. get_property MOTIONWISE_PATHS (config_name c) = Some (Str path) \<and> path \<noteq> []) \<and>
   get_property MOTIONWISE_PATHS (config_name Generic)
     = Some (Str ''1800-EcuIntegration/[PLATFORM]/core/development/dmiu'') \<and>
   get_property MOTIONWISE_PATHS (config_name Unknown)
     = Some (Str ''1800-EcuIntegration/[PLATFORM]/core/development/dmiu'')"
  by (cases c) (simp_all add: get_property_def MOTIONWISE_PATHS_def)

section \<open>No language model (C7)\<close>

text \<open>
  C7: when the turn at step \<open>Alternative\<close> finds no language model, it throws nothing. It
  streams, after the two chunks that announce the generation, a warning and one line with
  the platform, the memory function, the dataset function and the alternative function of
  the state; then the closing chunks. The step is \<open>Initial\<close> afterwards, so the conversation
  goes on with the next directive.
\<close>

theorem no_model_fallback:
  assumes "free_text request" and "step s = Alternative" and "selectChatModels host = Inr []"
  shows \<open>handleRequest request host s =
     \<lparr>stream =
        [([CHR 0xE2, CHR 0x9C, CHR 0x85] @ '' Alternative: '' @ [CHR 0x60]) @ trim (prompt request) @ ([CHR 0x60] @ ''\<newline>\<newline>''),
         ''## Generating Integration Files...\<newline>\<newline>'',
         ([CHR 0xE2, CHR 0x9A, CHR 0xA0, CHR 0xEF, CHR 0xB8, CHR 0x8F]
      @ '' Language Model not available\<newline>\<newline>''),
         ''Config: Platform='' @ interpolate (map_option (Str \<circ> platform_name) (platform s))
         @ '', Memory='' @ interpolate (map_option Str (memoryFunction s))
         @ '', Dataset='' @ interpolate (map_option Str (datasetFunction s))
         @ '', Alt='' @ trim (prompt request) @ ''\<newline>'',
         (''\<newline>\<newline>'' @ [CHR 0xE2, CHR 0x9C, CHR 0x85]
      @ '' **Integration complete!**\<newline>\<newline>''),
         ''Next steps:\<newline>'',
         ''1. Review generated files\<newline>'',
         ''2. Compile and test\<newline>'',
         (''3. Use '' @ [CHR 0x60] @ ''@dfu /validate'' @ [CHR 0x60] @ '' to check\<newline>'')],
      requests = [], thrown = None,
      state = s\<lparr>alternativeFunction := Some (trim (prompt request)), step := Initial\<rparr>\<rparr>\<close>
  using assms
  by (simp add: handleRequest_def handleConversationFlow_def generateIntegrationCode_def
        free_text_def interpolate_def Let_def)

theorem no_model_fallback_witness:
  \<open>free_text (say ''none'') \<and> step posix_at_alternative = Alternative \<and>
   selectChatModels no_model = Inr [] \<and>
   stream (handleRequest (say ''none'') no_model posix_at_alternative) ! 2 =
     ([CHR 0xE2, CHR 0x9A, CHR 0xA0, CHR 0xEF, CHR 0xB8, CHR 0x8F]
      @ '' Language Model not available\<newline>\<newline>'') \<and>
   stream (handleRequest (say ''none'') no_model posix_at_alternative) ! 3 =
     (''Config: Platform=posix, Memory=ShmM_MapOwner, Dataset=MyReader, Alt=no''
      @ ''ne\<newline>'') \<and>
   thrown (handleRequest (say ''none'') no_model posix_at_alternative) = None \<and>
   step (state (handleRequest (say ''none'') no_model posix_at_alternative)) = Initial\<close>
proof -
  have a: "free_text (say ''none'')"
    by simp
  have b: "step posix_at_alternative = Alternative"
    by (simp add: posix_at_alternative_def)
  have c: "selectChatModels no_model = Inr []"
    by (simp add: no_model_def)
  have d: \<open>stream (handleRequest (say ''none'') no_model posix_at_alternative) ! 2 =
       ([CHR 0xE2, CHR 0x9A, CHR 0xA0, CHR 0xEF, CHR 0xB8, CHR 0x8F]
      @ '' Language Model not available\<newline>\<newline>'') \<and>
     stream (handleRequest (say ''none'') no_model posix_at_alternative) ! 3 =
       (''Config: Platform=posix, Memory=ShmM_MapOwner, Dataset=MyReader, Alt=no''
      @ ''ne\<newline>'') \<and>
     thrown (handleRequest (say ''none'') no_model posix_at_alternative) = None \<and>
     step (state (handleRequest (say ''none'') no_model posix_at_alternative)) = Initial\<close>
    unfolding no_model_fallback [OF a b c]
    by (simp add: posix_at_alternative_def interpolate_def)
  show ?thesis
    using a b c d by blast
qed

section \<open>The capture steps (C8)\<close>

text \<open>
  C8, as stated, fails at the step \<open>Alternative\<close>: when the generation returns, the turn
  that records the alternative function ends at step \<open>Initial\<close>, which is not the position
  after \<open>Alternative\<close>.
\<close>

theorem alternative_step_counterexample:
  "free_text (say ''none'') \<and> step posix_at_alternative = Alternative \<and>
   state (handleRequest (say ''none'') answering posix_at_alternative) =
     posix_at_alternative\<lparr>alternativeFunction := Some ''none'', step := Initial\<rparr> \<and>
   \<not> spec_forward (step posix_at_alternative)
        (step (state (handleRequest (say ''none'') answering posix_at_alternative)))"
  by (simp add: state_free_text state_handleConversationFlow thrown_generateIntegrationCode
        completed_def posix_at_alternative_def answering_def)

text \<open>
  C8, amended. At the steps \<open>Memory\<close>, \<open>Dataset\<close> and \<open>Alternative\<close> every text is taken,
  the empty one too, and the trimmed text goes into the field of the step; a text with no
  white space at either end is recorded as it is. At \<open>Memory\<close> and at \<open>Dataset\<close> the step
  moves exactly one position forward. At \<open>Alternative\<close> the turn ends at \<open>Complete\<close> when the
  generation ends with an exception, and at \<open>Initial\<close> when the generation returns.
\<close>

theorem capture_steps_take_any_text:
  assumes "free_text request"
  shows "(step s = Memory \<longrightarrow>
            state (handleRequest request host s) =
              s\<lparr>memoryFunction := Some (trim (prompt request)), step := Dataset\<rparr> \<and>
            spec_forward (step s) (step (state (handleRequest request host s)))) \<and>
         (step s = Dataset \<longrightarrow>
            state (handleRequest request host s) =
              s\<lparr>datasetFunction := Some (trim (prompt request)), step := Alternative\<rparr> \<and>
            spec_forward (step s) (step (state (handleRequest request host s)))) \<and>
         (step s = Alternative \<longrightarrow>
            state (handleRequest request host s) =
              s\<lparr>alternativeFunction := Some (trim (prompt request)),
                step := (if thrown (generateIntegrationCode (completed request s) host) = None
                         then Initial else Complete)\<rparr>) \<and>
         (leading whitespace (prompt request) = None \<and>
          leading (map rev whitespace) (rev (prompt request)) = None \<longrightarrow>
            trim (prompt request) = prompt request)"
  using assms
  by (auto simp add: state_free_text state_handleConversationFlow completed_def trim_unchanged)

theorem capture_steps_take_any_text_witness:
  "free_text (say (padded ''My Reader'')) \<and> step posix_at_dataset = Dataset \<and>
   state (handleRequest (say (padded ''My Reader'')) no_model posix_at_dataset) =
     posix_at_dataset\<lparr>datasetFunction := Some ''My Reader'', step := Alternative\<rparr> \<and>
   step posix_at_memory = Memory \<and>
   state (handleRequest (say (padded [])) no_model posix_at_memory) =
     posix_at_memory\<lparr>memoryFunction := Some [], step := Dataset\<rparr> \<and>
   step posix_at_alternative = Alternative \<and>
   state (handleRequest (say []) cancelling posix_at_alternative) =
     posix_at_alternative\<lparr>alternativeFunction := Some [], step := Complete\<rparr> \<and>
   leading whitespace ''My Reader'' = None \<and>
   leading (map rev whitespace) (rev ''My Reader'') = None \<and>
   state (handleRequest (say ''My Reader'') no_model posix_at_memory) =
     posix_at_memory\<lparr>memoryFunction := Some ''My Reader'', step := Dataset\<rparr>"
proof -
  have a1: "free_text (say (padded ''My Reader''))" and a2: "free_text (say (padded []))"
    and a3: "free_text (say [])" and a4: "free_text (say ''My Reader'')"
    by simp_all
  have b: "step posix_at_dataset = Dataset"
    by (simp add: posix_at_dataset_def)
  have c: "step posix_at_alternative = Alternative"
    by (simp add: posix_at_alternative_def)
  have m: "step posix_at_memory = Memory"
    by (simp add: posix_at_memory_def)
  have l: "leading whitespace ''My Reader'' = None"
    and r: "leading (map rev whitespace) (rev ''My Reader'') = None"
    by (simp_all add: leading_def whitespace_def)
  have empty: "trim [] = []"
    by (simp add: trim_def trimStart_def trimEnd_def strip.simps leading_def whitespace_def)
  from capture_steps_take_any_text [OF a1, of posix_at_dataset no_model] b
  have d: "state (handleRequest (say (padded ''My Reader'')) no_model posix_at_dataset) =
     posix_at_dataset\<lparr>datasetFunction := Some ''My Reader'', step := Alternative\<rparr>"
    by simp
  from capture_steps_take_any_text [OF a2, of posix_at_memory no_model] m
  have e: "state (handleRequest (say (padded [])) no_model posix_at_memory) =
     posix_at_memory\<lparr>memoryFunction := Some [], step := Dataset\<rparr>"
    by simp
  from capture_steps_take_any_text [OF a3, of posix_at_alternative cancelling] c
  have f: "state (handleRequest (say []) cancelling posix_at_alternative) =
     posix_at_alternative\<lparr>alternativeFunction := Some [], step := Complete\<rparr>"
    by (simp add: thrown_generateIntegrationCode cancelling_def empty)
  from capture_steps_take_any_text [OF a4, of posix_at_memory no_model] m l r
  have g: "state (handleRequest (say ''My Reader'') no_model posix_at_memory) =
     posix_at_memory\<lparr>memoryFunction := Some ''My Reader'', step := Dataset\<rparr>"
    by simp
  show ?thesis
    using a1 b c m l r d e f g by blast
qed

section \<open>The platform of a MotionWise session (C9)\<close>

lemma platform_kept:
  assumes "command request \<noteq> Some ''integrate''"
  shows "platform (state (handleRequest request host s)) = platform s"
  using assms
  by (simp add: state_handleRequest state_handleConversationFlow completed_def)

lemma platform_kept_run:
  "\<forall>turn \<in> set turns. command (fst turn) \<noteq> Some ''integrate'' \<Longrightarrow>
   platform (run turns s) = platform s"
proof (induction turns arbitrary: s)
  case Nil
  show ?case by simp
next
  case (Cons turn turns)
  obtain request host where turn: "turn = (request, host)"
    by (cases turn)
  with Cons.prems have "command request \<noteq> Some ''integrate''"
    by simp
  then have "platform (state (handleRequest request host s)) = platform s"
    by (rule platform_kept)
  with Cons show ?case
    by (simp add: turn)
qed

text \<open>
  C9: the directive with the token \<^verbatim>\<open>motionwise\<close> sets the platform to POSIX, from any
  state and whatever the workspace scan finds, also when the scan fails. No turn other than
  a directive writes the platform, so it is POSIX for as long as the session goes on.
\<close>

theorem motionwise_platform_posix:
  assumes "command request = Some ''integrate''"
    and "platform_token host request = ''motionwise''"
    and "\<forall>turn \<in> set turns. command (fst turn) \<noteq> Some ''integrate''"
  shows "platform (state (handleRequest request host s)) = Some Posix \<and>
         platform (run ((request, host) # turns) s) = Some Posix"
proof -
  have first: "platform (state (handleRequest request host s)) = Some Posix"
    using assms(1,2)
    by (simp add: state_handleRequest state_handleIntegrateCommand
          split: sum.split option.split)
  with platform_kept_run [OF assms(3)] show ?thesis
    by simp
qed

theorem motionwise_platform_posix_witness:
  "command (integrate ''motionwise'') = Some ''integrate'' \<and>
   platform_token no_model (integrate ''motionwise'') = ''motionwise'' \<and>
   platform (posix_at_dataset\<lparr>platform := Some Autosar\<rparr>) = Some Autosar \<and>
   platform (state (handleRequest (integrate ''motionwise'') no_model
       (posix_at_dataset\<lparr>platform := Some Autosar\<rparr>))) = Some Posix \<and>
   platform (run [(integrate ''motionwise'', no_model), (say '' SV62 '', no_model),
       (say ''static'', no_model)] (posix_at_dataset\<lparr>platform := Some Autosar\<rparr>)) = Some Posix"
proof -
  have a: "command (integrate ''motionwise'') = Some ''integrate''"
    and b: "platform_token no_model (integrate ''motionwise'') = ''motionwise''"
    by simp_all
  have c: "\<forall>turn \<in> set [(say '' SV62 '', no_model), (say ''static'', no_model)].
      command (fst turn) \<noteq> Some ''integrate''"
    by simp
  from motionwise_platform_posix [OF a b c]
  have d: "platform (state (handleRequest (integrate ''motionwise'') no_model
       (posix_at_dataset\<lparr>platform := Some Autosar\<rparr>))) = Some Posix"
    and e: "platform (run [(integrate ''motionwise'', no_model), (say '' SV62 '', no_model),
       (say ''static'', no_model)] (posix_at_dataset\<lparr>platform := Some Autosar\<rparr>)) = Some Posix"
    by blast+
  have f: "platform (posix_at_dataset\<lparr>platform := Some Autosar\<rparr>) = Some Autosar"
    by simp
  show ?thesis
    using a b d e f by blast
qed

section \<open>A generation that fails (C10)\<close>

text \<open>
  C10, as stated, fails for a generation that is cancelled and does not throw: when the
  cancelled request ends its text early without an exception, \<^verbatim>\<open>generateIntegrationCode\<close>
  returns, and the turn goes on to the assignment of \<^verbatim>\<open>'initial'\<close> to the step.
\<close>

theorem quiet_cancellation_counterexample:
  "selectChatModels cancelled_quietly = Inr [\<lambda>messages. Text [''/* dmiu_'' ] None] \<and>
   state (handleRequest (say ''none'') cancelled_quietly posix_at_alternative) =
     posix_at_alternative\<lparr>alternativeFunction := Some ''none'', step := Initial\<rparr> \<and>
   step (state (handleRequest (say ''none'') cancelled_quietly posix_at_alternative)) \<noteq> Complete"
  by (simp add: state_free_text state_handleConversationFlow thrown_generateIntegrationCode
        completed_def posix_at_alternative_def cancelled_quietly_def)

text \<open>
  C10, amended. The turn at step \<open>Alternative\<close> records the alternative function; when its
  generation ends with an exception, thrown by the request or by a cancellation that shows
  as one, the step stays \<open>Complete\<close>, and when the generation returns, the step is reset to
  \<open>Initial\<close>. At step \<open>Complete\<close> a free-text turn streams nothing, sends nothing, throws
  nothing and leaves the state as it is, and a turn that changes the state is a directive
  with a platform token.
\<close>

theorem failed_generation_stays_complete:
  assumes "free_text request" and "step s = Alternative"
  shows "state (handleRequest request host s) =
           s\<lparr>alternativeFunction := Some (trim (prompt request)),
             step := (if thrown (generateIntegrationCode (completed request s) host) = None
                      then Initial else Complete)\<rparr> \<and>
         (thrown (generateIntegrationCode (completed request s) host) \<noteq> None \<longrightarrow>
            step (state (handleRequest request host s)) = Complete \<and>
            (free_text later \<longrightarrow>
               handleRequest later host' (state (handleRequest request host s)) =
                 \<lparr>stream = [], requests = [], thrown = None,
                  state = state (handleRequest request host s)\<rparr>) \<and>
            (state (handleRequest later host' (state (handleRequest request host s)))
               \<noteq> state (handleRequest request host s) \<longrightarrow>
             command later = Some ''integrate'' \<and>
             (platform_token host' later = ''posix'' \<or> platform_token host' later = ''autosar'' \<or>
              platform_token host' later = ''motionwise'')))"
proof -
  have after: "state (handleRequest request host s) =
      s\<lparr>alternativeFunction := Some (trim (prompt request)),
        step := (if thrown (generateIntegrationCode (completed request s) host) = None
                 then Initial else Complete)\<rparr>"
    using assms by (simp add: state_free_text state_handleConversationFlow completed_def)
  have silent: "handleRequest later host' t =
      \<lparr>stream = [], requests = [], thrown = None, state = t\<rparr>"
    if "free_text later" "step t = Complete" for t
    using that by (simp add: handleRequest_def handleConversationFlow_def free_text_def Let_def)
  have only: "command later = Some ''integrate'' \<and>
      (platform_token host' later = ''posix'' \<or> platform_token host' later = ''autosar'' \<or>
       platform_token host' later = ''motionwise'')"
    if "state (handleRequest later host' t) \<noteq> t" "step t = Complete" for t
    using that
    by (auto simp add: state_handleRequest state_handleIntegrateCommand
          state_handleConversationFlow split: if_splits)
  have "step (state (handleRequest request host s)) = Complete"
    if "thrown (generateIntegrationCode (completed request s) host) \<noteq> None"
    using that by (simp add: after)
  with after silent [of "state (handleRequest request host s)"]
    only [of "state (handleRequest request host s)"]
  show ?thesis
    by blast
qed

theorem failed_generation_stays_complete_witness:
  "free_text (say ''none'') \<and> step posix_at_alternative = Alternative \<and>
   thrown (generateIntegrationCode (completed (say ''none'') posix_at_alternative) cancelling)
     = Some (Thrown ''Canceled'') \<and>
   step (state (handleRequest (say ''none'') cancelling posix_at_alternative)) = Complete \<and>
   free_text (say ''hello'') \<and>
   handleRequest (say ''hello'') answering
       (state (handleRequest (say ''none'') cancelling posix_at_alternative)) =
     \<lparr>stream = [], requests = [], thrown = None,
      state = state (handleRequest (say ''none'') cancelling posix_at_alternative)\<rparr> \<and>
   step (state (handleRequest (integrate ''posix'') answering
       (state (handleRequest (say ''none'') cancelling posix_at_alternative)))) = Memory"
proof -
  have a: "free_text (say ''none'')" and a': "free_text (say ''hello'')"
    by simp_all
  have b: "step posix_at_alternative = Alternative"
    by (simp add: posix_at_alternative_def)
  have c: "thrown (generateIntegrationCode (completed (say ''none'') posix_at_alternative) cancelling)
      = Some (Thrown ''Canceled'')"
    by (simp add: thrown_generateIntegrationCode cancelling_def)
  then have c': "thrown (generateIntegrationCode (completed (say ''none'') posix_at_alternative)
      cancelling) \<noteq> None"
    by simp
  note fact = failed_generation_stays_complete [OF a b, of cancelling "say ''hello''" answering]
  from fact c' have d: "step (state (handleRequest (say ''none'') cancelling posix_at_alternative))
      = Complete"
    by blast
  from fact c' a' have e: "handleRequest (say ''hello'') answering
       (state (handleRequest (say ''none'') cancelling posix_at_alternative)) =
     \<lparr>stream = [], requests = [], thrown = None,
      state = state (handleRequest (say ''none'') cancelling posix_at_alternative)\<rparr>"
    by blast
  from fact c' have "state (handleRequest (say ''none'') cancelling posix_at_alternative) =
      posix_at_alternative\<lparr>alternativeFunction := Some ''none'', step := Complete\<rparr>"
    by simp
  then have f: "step (state (handleRequest (integrate ''posix'') answering
       (state (handleRequest (say ''none'') cancelling posix_at_alternative)))) = Memory"
    by (simp add: state_handleRequest state_handleIntegrateCommand answering_def)
  show ?thesis
    using a a' b c d e f by blast
qed

end
